theory Spec2Isabelle
  imports Main "HOL-Library.AList"
begin

section \<open>Values, exceptions and effects\<close>

text \<open>
  Request bodies, RPC replies and the property dictionaries handed to the driver are
  Python values built from JSON. A dictionary is an association list whose keys are
  distinct, \<open>None\<close> is \<open>JNull\<close>. Floating point numbers are left out.
\<close>

datatype json =
    JNull
  | JBool bool
  | JInt int
  | JStr string
  | JList "json list"
  | JDict "(string \<times> json) list"

text \<open>
  Every \<open>raise\<close> of the sources is a value. \<open>Failure\<close> stands for whatever an external
  collaborator (the Neutron client, the RPC client) raises.
\<close>

datatype exn =
    KeyError string
  | IndexError
  | AttributeError string
  | TypeError string
  | ValueError string
  | ValidationError string
  | InvalidParameter string json
  | HTTPBadRequest string
  | Failure string

text \<open>
  A computation runs on a state of the outside world and either raises or returns;
  the state it leaves behind is kept in both cases.
\<close>

type_synonym ('s, 'a) io = "'s \<Rightarrow> (exn + 'a) \<times> 's"

definition return :: "'a \<Rightarrow> ('s, 'a) io" where
  "return a s = (Inr a, s)"

definition raise :: "exn \<Rightarrow> ('s, 'a) io" where
  "raise e s = (Inl e, s)"

definition bind :: "('s, 'a) io \<Rightarrow> ('a \<Rightarrow> ('s, 'b) io) \<Rightarrow> ('s, 'b) io" where
  "bind m f s = (case m s of (Inl e, s') \<Rightarrow> (Inl e, s') | (Inr a, s') \<Rightarrow> f a s')"

definition lift :: "exn + 'a \<Rightarrow> ('s, 'a) io" where
  "lift r s = (r, s)"

section \<open>The load-balancer driver (senlin/drivers/openstack/lbaas.py)\<close>

subsection \<open>The Neutron client\<close>

text \<open>
  The driver talks to Neutron through \<open>self.nc()\<close>. The client is not part of the
  sources, so it is a parameter: a record of operations on an arbitrary backend state
  \<open>'s\<close>. An object returned by the client carries its \<open>id\<close> and the two status
  attributes the driver reads. \<open>sleep\<close> is \<open>eventlet.sleep\<close>: time passes and the
  backend may change. Calls to the logger have no effect on any result and are left out.
\<close>

record resource =
  rid :: string
  provisioning_status :: string
  operating_status :: string

record 's neutron =
  loadbalancer_create :: "json \<Rightarrow> json \<Rightarrow> json \<Rightarrow> ('s, resource) io"
  loadbalancer_get :: "string \<Rightarrow> ('s, resource option) io"
  loadbalancer_delete :: "string \<Rightarrow> ('s, unit) io"
  listener_create :: "string \<Rightarrow> json \<Rightarrow> json \<Rightarrow> json \<Rightarrow> json \<Rightarrow> ('s, resource) io"
  listener_delete :: "string \<Rightarrow> ('s, unit) io"
  pool_create :: "json \<Rightarrow> string \<Rightarrow> json \<Rightarrow> json \<Rightarrow> ('s, resource) io"
  pool_delete :: "string \<Rightarrow> ('s, unit) io"
  healthmonitor_delete :: "string \<Rightarrow> ('s, unit) io"
  sleep :: "int \<Rightarrow> 's \<Rightarrow> 's"

subsection \<open>\<open>_wait_for_lb_ready\<close>\<close>

definition lb_is_ready :: "bool \<Rightarrow> resource option \<Rightarrow> bool" where
  "lb_is_ready ignore_not_found lb =
     (case lb of
        None \<Rightarrow> ignore_not_found
      | Some l \<Rightarrow> provisioning_status l = ''ACTIVE'' \<and> operating_status l = ''ONLINE'')"

text \<open>The \<open>while waited < timeout\<close> loop, entered with the current value of \<open>waited\<close>.\<close>

function wait_loop :: "'s neutron \<Rightarrow> string \<Rightarrow> int \<Rightarrow> bool \<Rightarrow> int \<Rightarrow> ('s, bool) io" where
  "wait_loop nc lb_id timeout ignore_not_found waited s =
     (if waited < timeout then
        (case loadbalancer_get nc lb_id s of
           (Inl e, s') \<Rightarrow> (Inl e, s')
         | (Inr lb, s') \<Rightarrow>
             if lb_is_ready ignore_not_found lb then (Inr True, s')
             else wait_loop nc lb_id timeout ignore_not_found (waited + 2) (sleep nc 2 s'))
      else (Inr False, s))"
  by pat_completeness auto
termination
  by (relation "measure (\<lambda>(nc, lb_id, timeout, ignore_not_found, waited, s). nat (timeout - waited))")
     auto

declare wait_loop.simps [simp del]

definition wait_for_lb_ready :: "'s neutron \<Rightarrow> string \<Rightarrow> int \<Rightarrow> bool \<Rightarrow> ('s, bool) io" where
  "wait_for_lb_ready nc lb_id timeout ignore_not_found =
     wait_loop nc lb_id timeout ignore_not_found 0"

text \<open>
  The backend state in which poll number \<open>i\<close> (counted from 0) is made, when every
  earlier poll returned and found the load balancer not ready: each round is one
  \<open>loadbalancer_get\<close> followed by a sleep of two seconds.
\<close>

fun poll_state :: "'s neutron \<Rightarrow> string \<Rightarrow> nat \<Rightarrow> 's \<Rightarrow> 's" where
  "poll_state nc lb_id 0 s = s"
| "poll_state nc lb_id (Suc i) s =
     poll_state nc lb_id i (sleep nc 2 (snd (loadbalancer_get nc lb_id s)))"

definition poll :: "'s neutron \<Rightarrow> string \<Rightarrow> nat \<Rightarrow> 's \<Rightarrow> (exn + resource option) \<times> 's" where
  "poll nc lb_id i s = loadbalancer_get nc lb_id (poll_state nc lb_id i s)"

text \<open>A poll that returned and did not find the load balancer ready.\<close>

definition pending :: "bool \<Rightarrow> (exn + resource option) \<Rightarrow> bool" where
  "pending ignore_not_found r =
     (case r of Inl e \<Rightarrow> False | Inr lb \<Rightarrow> \<not> lb_is_ready ignore_not_found lb)"

text \<open>The number of rounds the loop makes at most: the least \<open>n\<close> with \<open>timeout \<le> 2 * n\<close>.\<close>

definition max_polls :: "int \<Rightarrow> nat" where
  "max_polls timeout = nat ((timeout + 1) div 2)"

subsection \<open>\<open>lb_delete\<close>\<close>

text \<open>
  The keyword arguments are a dictionary from names to resource ids.
  \<open>kwargs.pop('loadbalancer')\<close> raises \<open>KeyError\<close> when the key is missing; the other
  three are popped with the default \<open>None\<close> and used only when truthy, that is, when
  present and not the empty string. The waits after the first three deletions are
  \<open>_wait_for_lb_ready(lb_id)\<close>, with the defaults \<open>timeout=60\<close> and
  \<open>ignore_not_found=False\<close>. The last one is \<open>_wait_for_lb_ready(lb_id, True)\<close>: the
  \<open>True\<close> is the second positional argument, so it is the timeout, which compares
  as the number 1, and \<open>ignore_not_found\<close> keeps its default \<open>False\<close>.
\<close>

definition if_truthy :: "string option \<Rightarrow> (string \<Rightarrow> ('s, unit) io) \<Rightarrow> ('s, unit) io" where
  "if_truthy v body =
     (case v of None \<Rightarrow> return () | Some i \<Rightarrow> if i \<noteq> [] then body i else return ())"

definition lb_delete :: "'s neutron \<Rightarrow> (string \<rightharpoonup> string) \<Rightarrow> ('s, bool \<times> string) io" where
  "lb_delete nc kwargs =
     (case kwargs ''loadbalancer'' of
        None \<Rightarrow> raise (KeyError ''loadbalancer'')
      | Some lb_id \<Rightarrow>
          bind (if_truthy (kwargs ''healthmonitor'') (\<lambda>healthmonitor_id.
                  bind (healthmonitor_delete nc healthmonitor_id) (\<lambda>_.
                  bind (wait_for_lb_ready nc lb_id 60 False) (\<lambda>_. return ())))) (\<lambda>_.
          bind (if_truthy (kwargs ''pool'') (\<lambda>pool_id.
                  bind (pool_delete nc pool_id) (\<lambda>_.
                  bind (wait_for_lb_ready nc lb_id 60 False) (\<lambda>_. return ())))) (\<lambda>_.
          bind (if_truthy (kwargs ''listener'') (\<lambda>listener_id.
                  bind (listener_delete nc listener_id) (\<lambda>_.
                  bind (wait_for_lb_ready nc lb_id 60 False) (\<lambda>_. return ())))) (\<lambda>_.
          bind (loadbalancer_delete nc lb_id) (\<lambda>_.
          bind (wait_for_lb_ready nc lb_id 1 False) (\<lambda>_.
          return (True, ''LB deletion succeeded'')))))))"

subsection \<open>\<open>lb_create\<close>\<close>

text \<open>\<open>d[k]\<close> raises \<open>KeyError\<close> on a missing key, \<open>d.get(k, default)\<close> does not.\<close>

definition item :: "(string \<times> json) list \<Rightarrow> string \<Rightarrow> ('s, json) io" where
  "item d k = (case map_of d k of None \<Rightarrow> raise (KeyError k) | Some v \<Rightarrow> return v)"

definition get_default :: "(string \<times> json) list \<Rightarrow> string \<Rightarrow> json \<Rightarrow> json" where
  "get_default d k dflt = (case map_of d k of None \<Rightarrow> dflt | Some v \<Rightarrow> v)"

text \<open>
  The second component of the returned pair is the error message on failure and the
  dictionary of created ids on success.
\<close>

datatype payload = Msg string | Result "string \<rightharpoonup> string"

definition cleanup :: "'s neutron \<Rightarrow> string \<Rightarrow> (string \<rightharpoonup> string) \<Rightarrow> ('s, unit) io" where
  "cleanup nc msg kwargs = bind (lb_delete nc kwargs) (\<lambda>_. return ())"

definition lb_create ::
  "'s neutron \<Rightarrow> (string \<times> json) list \<Rightarrow> (string \<times> json) list \<Rightarrow> ('s, bool \<times> payload) io" where
  "lb_create nc vip pool =
     bind (item vip ''subnet'') (\<lambda>subnet.
     bind (item vip ''admin_state_up'') (\<lambda>admin_state_up.
     bind (loadbalancer_create nc subnet (get_default vip ''address'' JNull) admin_state_up) (\<lambda>lb.
     let result = [''loadbalancer'' \<mapsto> rid lb] in
     bind (wait_for_lb_ready nc (rid lb) 60 False) (\<lambda>res.
     if \<not> res then
       let msg = ''Failed in creating load balancer ('' @ rid lb @ '').'' in
       bind (cleanup nc msg result) (\<lambda>_. return (False, Msg msg))
     else
     bind (item vip ''protocol'') (\<lambda>protocol.
     bind (item vip ''protocol_port'') (\<lambda>protocol_port.
     bind (item vip ''admin_state_up'') (\<lambda>admin_state_up.
     bind (listener_create nc (rid lb) protocol protocol_port
             (get_default vip ''connection_limit'' JNull) admin_state_up) (\<lambda>listener.
     let result = result(''listener'' \<mapsto> rid listener) in
     bind (wait_for_lb_ready nc (rid lb) 60 False) (\<lambda>res.
     if \<not> res then
       let msg = ''Failed in creating listener ('' @ rid listener @ '').'' in
       bind (cleanup nc msg result) (\<lambda>_. return (res, Msg msg))
     else
     bind (item pool ''lb_method'') (\<lambda>lb_method.
     bind (item pool ''protocol'') (\<lambda>protocol.
     bind (item pool ''admin_state_up'') (\<lambda>admin_state_up.
     bind (pool_create nc lb_method (rid listener) protocol admin_state_up) (\<lambda>pool.
     let result = result(''pool'' \<mapsto> rid pool) in
     bind (wait_for_lb_ready nc (rid lb) 60 False) (\<lambda>res.
     if \<not> res then
       let msg = ''Failed in creating pool ('' @ rid pool @ '').'' in
       bind (cleanup nc msg result) (\<lambda>_. return (res, Msg msg))
     else return (True, Result result)))))))))))))))"

subsection \<open>Observing the calls made on the backend\<close>

text \<open>
  To speak about which calls the driver makes and in which order, a client is wrapped
  so that every call that returns is appended to a trace kept next to the backend
  state. A create is recorded with the id of the object it returned.
\<close>

datatype kind = Loadbalancer | Listener | Pool | Healthmonitor

datatype event = Create kind string | Delete kind string | Get string | Sleep int

definition traced_call :: "('s, 'a) io \<Rightarrow> ('a \<Rightarrow> event) \<Rightarrow> ('s \<times> event list, 'a) io" where
  "traced_call m ev = (\<lambda>(s, tr).
     case m s of (Inl e, s') \<Rightarrow> (Inl e, (s', tr)) | (Inr a, s') \<Rightarrow> (Inr a, (s', tr @ [ev a])))"

definition traced :: "'s neutron \<Rightarrow> ('s \<times> event list) neutron" where
  "traced nc = \<lparr>
     loadbalancer_create = (\<lambda>a b c.
       traced_call (loadbalancer_create nc a b c) (\<lambda>r. Create Loadbalancer (rid r))),
     loadbalancer_get = (\<lambda>i. traced_call (loadbalancer_get nc i) (\<lambda>_. Get i)),
     loadbalancer_delete = (\<lambda>i. traced_call (loadbalancer_delete nc i) (\<lambda>_. Delete Loadbalancer i)),
     listener_create = (\<lambda>a b c d e.
       traced_call (listener_create nc a b c d e) (\<lambda>r. Create Listener (rid r))),
     listener_delete = (\<lambda>i. traced_call (listener_delete nc i) (\<lambda>_. Delete Listener i)),
     pool_create = (\<lambda>a b c d.
       traced_call (pool_create nc a b c d) (\<lambda>r. Create Pool (rid r))),
     pool_delete = (\<lambda>i. traced_call (pool_delete nc i) (\<lambda>_. Delete Pool i)),
     healthmonitor_delete = (\<lambda>i.
       traced_call (healthmonitor_delete nc i) (\<lambda>_. Delete Healthmonitor i)),
     sleep = (\<lambda>n (s, tr). (sleep nc n s, tr @ [Sleep n])) \<rparr>"

text \<open>The creations and deletions of a trace, in order.\<close>

fun is_change :: "event \<Rightarrow> bool" where
  "is_change (Create k i) = True"
| "is_change (Delete k i) = True"
| "is_change (Get i) = False"
| "is_change (Sleep n) = False"

definition changes :: "event list \<Rightarrow> event list" where
  "changes tr = filter is_change tr"

text \<open>
  The resources a trace leaves behind in the backend: those created and not deleted
  afterwards.
\<close>

fun live :: "event list \<Rightarrow> (kind \<times> string) list \<Rightarrow> (kind \<times> string) list" where
  "live [] acc = acc"
| "live (Create k i # tr) acc = live tr (acc @ [(k, i)])"
| "live (Delete k i # tr) acc = live tr (removeAll (k, i) acc)"
| "live (Get i # tr) acc = live tr acc"
| "live (Sleep n # tr) acc = live tr acc"

text \<open>A readiness wait on \<open>lb_id\<close> as it shows in the trace: polls of \<open>lb_id\<close> and sleeps of
  two seconds, the last event being a poll.\<close>

definition polls_of :: "string \<Rightarrow> event list \<Rightarrow> bool" where
  "polls_of lb_id w = (w \<noteq> [] \<and> set w \<subseteq> {Get lb_id, Sleep 2} \<and> last w = Get lb_id)"


subsection \<open>Auxiliary notions for the driver\<close>

text \<open>The rounds the loop still makes when it is entered with \<open>waited\<close>.\<close>

definition rounds :: "int \<Rightarrow> int \<Rightarrow> nat" where
  "rounds timeout waited = nat ((timeout - waited + 1) div 2)"

text \<open>What a readiness wait with result \<open>r\<close> adds to the trace.\<close>

definition wait_trace :: "string \<Rightarrow> (exn + bool) \<Rightarrow> event list \<Rightarrow> bool" where
  "wait_trace lb_id r ex = (set ex \<subseteq> {Get lb_id, Sleep 2} \<and> (r = Inr True \<longrightarrow> ex \<noteq> [] \<and> last ex = Get lb_id))"


text \<open>The deletion that \<open>lb_delete\<close> makes for an optional id.\<close>

definition deleted :: "kind \<Rightarrow> string option \<Rightarrow> event list" where
  "deleted k v = (case v of None \<Rightarrow> [] | Some i \<Rightarrow> if i \<noteq> [] then [Delete k i] else [])"


text \<open>
  A backend in which the load balancer \<open>lb_id\<close> does not exist: \<open>I\<close> describes the
  backend states in question. In these states \<open>loadbalancer_get\<close> finds nothing, the
  delete calls return without raising (the client ignores a missing resource), and
  the states are closed under the calls \<open>lb_delete\<close> makes.
\<close>

definition lb_gone :: "'s neutron \<Rightarrow> string \<Rightarrow> ('s \<Rightarrow> bool) \<Rightarrow> bool" where
  "lb_gone nc lb_id I \<longleftrightarrow>
     (\<forall>s. I s \<longrightarrow> I (sleep nc 2 s)) \<and>
     (\<forall>s. I s \<longrightarrow> (\<exists>s'. loadbalancer_get nc lb_id s = (Inr None, s') \<and> I s')) \<and>
     (\<forall>s. I s \<longrightarrow> (\<exists>s'. loadbalancer_delete nc lb_id s = (Inr (), s') \<and> I s')) \<and>
     (\<forall>s i. I s \<longrightarrow> (\<exists>s'. listener_delete nc i s = (Inr (), s') \<and> I s')) \<and>
     (\<forall>s i. I s \<longrightarrow> (\<exists>s'. pool_delete nc i s = (Inr (), s') \<and> I s')) \<and>
     (\<forall>s i. I s \<longrightarrow> (\<exists>s'. healthmonitor_delete nc i s = (Inr (), s') \<and> I s'))"


subsection \<open>A simulated backend\<close>

text \<open>
  A small backend on which the driver can be run: the state is a clock (in seconds)
  and the list of resources that exist. A resource reports \<open>ACTIVE\<close>/\<open>ONLINE\<close> once
  the clock has reached \<open>ready_at\<close>; sleeping advances the clock; deletions either
  work or, when \<open>del_ok\<close> is false, raise.
\<close>

definition sim_lb :: "int \<Rightarrow> int \<Rightarrow> string \<Rightarrow> resource" where
  "sim_lb ready_at clock i =
     (if ready_at \<le> clock
      then \<lparr>rid = i, provisioning_status = ''ACTIVE'', operating_status = ''ONLINE''\<rparr>
      else \<lparr>rid = i, provisioning_status = ''PENDING_CREATE'', operating_status = ''OFFLINE''\<rparr>)"

definition sim_delete :: "bool \<Rightarrow> kind \<Rightarrow> string \<Rightarrow> (int \<times> (kind \<times> string) list, unit) io" where
  "sim_delete del_ok k i = (\<lambda>(clock, rs).
     if del_ok then (Inr (), (clock, removeAll (k, i) rs))
     else (Inl (Failure ''backend unavailable''), (clock, rs)))"

definition sim :: "int \<Rightarrow> bool \<Rightarrow> (int \<times> (kind \<times> string) list) neutron" where
  "sim ready_at del_ok = \<lparr>
     loadbalancer_create = (\<lambda>a b c (clock, rs).
       (Inr (sim_lb ready_at clock ''lb-1''), (clock, rs @ [(Loadbalancer, ''lb-1'')]))),
     loadbalancer_get = (\<lambda>i (clock, rs).
       (Inr (if (Loadbalancer, i) \<in> set rs then Some (sim_lb ready_at clock i) else None),
        (clock, rs))),
     loadbalancer_delete = sim_delete del_ok Loadbalancer,
     listener_create = (\<lambda>a b c d e (clock, rs).
       (Inr (sim_lb ready_at clock ''listener-1''), (clock, rs @ [(Listener, ''listener-1'')]))),
     listener_delete = sim_delete del_ok Listener,
     pool_create = (\<lambda>a b c d (clock, rs).
       (Inr (sim_lb ready_at clock ''pool-1''), (clock, rs @ [(Pool, ''pool-1'')]))),
     pool_delete = sim_delete del_ok Pool,
     healthmonitor_delete = sim_delete del_ok Healthmonitor,
     sleep = (\<lambda>n (clock, rs). (clock + n, rs)) \<rparr>"

definition vip0 :: "(string \<times> json) list" where
  "vip0 = [(''subnet'', JStr ''subnet-1''), (''address'', JStr ''10.0.0.5''),
           (''admin_state_up'', JBool True), (''protocol'', JStr ''HTTP''),
           (''protocol_port'', JInt 80)]"

definition pool0 :: "(string \<times> json) list" where
  "pool0 = [(''lb_method'', JStr ''ROUND_ROBIN''), (''protocol'', JStr ''HTTP''),
            (''admin_state_up'', JBool True)]"

text \<open>
  A second simulated backend, in which single steps can fail: the load balancer
  reports \<open>PENDING_UPDATE\<close> for as long as a resource of one of the kinds \<open>stuck\<close>
  exists, and the deletions of the kinds \<open>broken\<close> raise.
\<close>

definition sim_kinds_lb :: "kind list \<Rightarrow> (kind \<times> string) list \<Rightarrow> string \<Rightarrow> resource" where
  "sim_kinds_lb stuck rs i =
     (if list_ex (\<lambda>(k, j). k \<in> set stuck) rs
      then \<lparr>rid = i, provisioning_status = ''PENDING_UPDATE'', operating_status = ''ONLINE''\<rparr>
      else \<lparr>rid = i, provisioning_status = ''ACTIVE'', operating_status = ''ONLINE''\<rparr>)"

definition sim_kinds_delete ::
  "kind list \<Rightarrow> kind \<Rightarrow> string \<Rightarrow> (int \<times> (kind \<times> string) list, unit) io" where
  "sim_kinds_delete broken k i = (\<lambda>(clock, rs).
     if k \<in> set broken then (Inl (Failure ''backend unavailable''), (clock, rs))
     else (Inr (), (clock, removeAll (k, i) rs)))"

definition sim_kinds :: "kind list \<Rightarrow> kind list \<Rightarrow> (int \<times> (kind \<times> string) list) neutron" where
  "sim_kinds stuck broken = \<lparr>
     loadbalancer_create = (\<lambda>a b c (clock, rs).
       (Inr (sim_kinds_lb stuck (rs @ [(Loadbalancer, ''lb-1'')]) ''lb-1''),
        (clock, rs @ [(Loadbalancer, ''lb-1'')]))),
     loadbalancer_get = (\<lambda>i (clock, rs).
       (Inr (if (Loadbalancer, i) \<in> set rs then Some (sim_kinds_lb stuck rs i) else None),
        (clock, rs))),
     loadbalancer_delete = sim_kinds_delete broken Loadbalancer,
     listener_create = (\<lambda>a b c d e (clock, rs).
       (Inr (sim_kinds_lb stuck (rs @ [(Listener, ''listener-1'')]) ''listener-1''),
        (clock, rs @ [(Listener, ''listener-1'')]))),
     listener_delete = sim_kinds_delete broken Listener,
     pool_create = (\<lambda>a b c d (clock, rs).
       (Inr (sim_kinds_lb stuck (rs @ [(Pool, ''pool-1'')]) ''pool-1''),
        (clock, rs @ [(Pool, ''pool-1'')]))),
     pool_delete = sim_kinds_delete broken Pool,
     healthmonitor_delete = sim_kinds_delete broken Healthmonitor,
     sleep = (\<lambda>n (clock, rs). (clock + n, rs)) \<rparr>"

section \<open>The cluster controller (senlin/api/openstack/v1/clusters.py)\<close>

subsection \<open>Python values\<close>

text \<open>Truthiness (\<open>if x\<close>, \<open>not x\<close>, \<open>x or y\<close>).\<close>

fun truthy :: "json \<Rightarrow> bool" where
  "truthy JNull = False"
| "truthy (JBool b) = b"
| "truthy (JInt i) = (i \<noteq> 0)"
| "truthy (JStr s) = (s \<noteq> [])"
| "truthy (JList xs) = (xs \<noteq> [])"
| "truthy (JDict d) = (d \<noteq> [])"

text \<open>\<open>isinstance(x, dict)\<close>.\<close>

fun is_dict :: "json \<Rightarrow> bool" where
  "is_dict (JDict d) = True"
| "is_dict _ = False"

text \<open>\<open>x.get(key, default)\<close>: only a dictionary has the method.\<close>

fun py_get :: "json \<Rightarrow> string \<Rightarrow> json \<Rightarrow> ('s, json) io" where
  "py_get (JDict d) k dflt = return (case map_of d k of None \<Rightarrow> dflt | Some v \<Rightarrow> v)"
| "py_get _ k dflt = raise (AttributeError ''get'')"

text \<open>\<open>x[key]\<close> for reading.\<close>

fun py_item :: "json \<Rightarrow> string \<Rightarrow> ('s, json) io" where
  "py_item (JDict d) k = (case map_of d k of None \<Rightarrow> raise (KeyError k) | Some v \<Rightarrow> return v)"
| "py_item _ k = raise (TypeError ''__getitem__'')"

text \<open>Reading the attribute \<open>x.key\<close> of a request object.\<close>

fun py_attr :: "json \<Rightarrow> string \<Rightarrow> ('s, json) io" where
  "py_attr (JDict d) k = (case map_of d k of None \<Rightarrow> raise (AttributeError k) | Some v \<Rightarrow> return v)"
| "py_attr _ k = raise (AttributeError k)"

text \<open>\<open>x[key] = v\<close> and \<open>x.update({key: v})\<close>.\<close>

fun py_setitem :: "json \<Rightarrow> string \<Rightarrow> json \<Rightarrow> ('s, json) io" where
  "py_setitem (JDict d) k v = return (JDict (AList.update k v d))"
| "py_setitem _ k v = raise (TypeError ''__setitem__'')"

fun py_update :: "json \<Rightarrow> string \<Rightarrow> json \<Rightarrow> ('s, json) io" where
  "py_update (JDict d) k v = return (JDict (AList.update k v d))"
| "py_update _ k v = raise (AttributeError ''update'')"

text \<open>\<open>x.pop(key)\<close>: the value and the dictionary without the key.\<close>

fun py_pop :: "json \<Rightarrow> string \<Rightarrow> ('s, json \<times> json) io" where
  "py_pop (JDict d) k =
     (case map_of d k of
        None \<Rightarrow> raise (KeyError k)
      | Some v \<Rightarrow> return (v, JDict (AList.delete k d)))"
| "py_pop _ k = raise (AttributeError ''pop'')"

text \<open>\<open>len(x)\<close>.\<close>

fun py_len :: "json \<Rightarrow> ('s, nat) io" where
  "py_len (JDict d) = return (length d)"
| "py_len (JList xs) = return (length xs)"
| "py_len (JStr s) = return (length s)"
| "py_len _ = raise (TypeError ''len'')"

text \<open>\<open>list(x.keys())[0]\<close>.\<close>

fun first_key :: "json \<Rightarrow> ('s, string) io" where
  "first_key (JDict []) = raise IndexError"
| "first_key (JDict ((k, v) # d)) = return k"
| "first_key _ = raise (AttributeError ''keys'')"

text \<open>
  \<open>set(xs)\<close> needs hashable elements, which lists and dictionaries are not, and
  identifies \<open>True\<close> with \<open>1\<close> and \<open>False\<close> with \<open>0\<close>.
\<close>

fun hashable :: "json \<Rightarrow> bool" where
  "hashable (JList xs) = False"
| "hashable (JDict d) = False"
| "hashable _ = True"

fun set_key :: "json \<Rightarrow> json" where
  "set_key (JBool b) = JInt (if b then 1 else 0)"
| "set_key v = v"

definition len_set :: "json list \<Rightarrow> ('s, nat) io" where
  "len_set xs =
     (if \<forall>x \<in> set xs. hashable x then return (length (remdups (map set_key xs)))
      else raise (TypeError ''unhashable type''))"

text \<open>
  A \<open>try\<close> block with its \<open>except\<close> clauses: the handler answers \<open>None\<close> for an
  exception that no clause catches.
\<close>

definition try_except :: "('s, 'a) io \<Rightarrow> (exn \<Rightarrow> ('s, 'a) io option) \<Rightarrow> ('s, 'a) io" where
  "try_except m h s =
     (case m s of
        (Inl e, s') \<Rightarrow> (case h e of None \<Rightarrow> (Inl e, s') | Some k \<Rightarrow> k s')
      | (Inr a, s') \<Rightarrow> (Inr a, s'))"

subsection \<open>Collaborators\<close>

text \<open>
  The RPC client is a parameter: one function from a call (the method with its
  arguments) to a computation on the engine's state. \<open>Call2\<close> is
  \<open>rpc_client.call2(ctx, method, obj)\<close>; the other constructors are the client's
  methods of the same names.
\<close>

datatype 'c rpc_call =
    Call2 'c string json
  | ClusterResize 'c string json "int option" "int option" "int option" "int option" bool
  | ClusterScaleOut 'c string json
  | ClusterScaleIn 'c string json
  | ClusterPolicyAttach 'c string json
  | ClusterPolicyDetach 'c string json
  | ClusterPolicyUpdate 'c string json
  | ClusterCheck 'c string json
  | ClusterRecover 'c string json
  | ClusterReplaceNodes 'c string json
  | ClusterDelete 'c string bool

type_synonym ('c, 's) rpc_client = "'c rpc_call \<Rightarrow> ('s, json) io"

text \<open>
  The helpers and constants the controller imports from modules that are not among
  the sources (\<open>senlin.common.utils\<close>, \<open>senlin.common.consts\<close>, \<open>senlin.objects.base\<close>,
  \<open>jsonschema\<close>, \<open>six\<close>) are parameters as well. \<open>parse_int_param name value
  allow_negative\<close> and \<open>parse_bool_param name value\<close> return the parsed value or raise;
  \<open>validate norm_req obj\<close> is \<open>jsonschema.validate(norm_req, obj.to_json_schema())\<close>;
  \<open>text_type\<close> is \<open>six.text_type\<close> on an exception; \<open>py_str\<close> is what \<open>'%s'\<close> prints
  for a value that is not a string.
\<close>

record env =
  parse_int_param :: "string \<Rightarrow> json \<Rightarrow> bool \<Rightarrow> exn + int"
  parse_bool_param :: "string \<Rightarrow> json \<Rightarrow> exn + bool"
  normalize_req :: "string \<Rightarrow> json \<Rightarrow> string option \<Rightarrow> exn + json"
  obj_from_primitive :: "string \<Rightarrow> json \<Rightarrow> exn + json"
  validate :: "json \<Rightarrow> json \<Rightarrow> exn + unit"
  text_type :: "exn \<Rightarrow> string"
  py_str :: "json \<Rightarrow> string"
  ADJUSTMENT_TYPES :: "string list"
  ADJUSTMENT_TYPE :: string
  ADJUSTMENT_NUMBER :: string
  ADJUSTMENT_MIN_SIZE :: string
  ADJUSTMENT_MAX_SIZE :: string
  ADJUSTMENT_MIN_STEP :: string
  ADJUSTMENT_STRICT :: string
  CP_POLICY_ID :: string
  CP_ENABLED :: string

record 'c request =
  req_context :: 'c

text \<open>\<open>'/actions/%s' % action_id\<close>.\<close>

definition percent_s :: "env \<Rightarrow> json \<Rightarrow> string" where
  "percent_s env v = (case v of JStr s \<Rightarrow> s | _ \<Rightarrow> py_str env v)"

definition location_of :: "env \<Rightarrow> json \<Rightarrow> json" where
  "location_of env action_id = JStr (''/actions/'' @ percent_s env action_id)"

text \<open>\<open>x in consts.ADJUSTMENT_TYPES\<close>, a tuple of strings.\<close>

definition in_ADJUSTMENT_TYPES :: "env \<Rightarrow> json \<Rightarrow> bool" where
  "in_ADJUSTMENT_TYPES env v = (case v of JStr s \<Rightarrow> s \<in> set (ADJUSTMENT_TYPES env) | _ \<Rightarrow> False)"

subsection \<open>\<open>ClusterController\<close>\<close>

text \<open>
  The methods are modelled by their bodies. The decorators \<open>util.policy_enforce\<close> and
  \<open>wsgi.Controller.api_version\<close>, which are not among the sources, act before a body
  is entered (authorisation, selection by API version) and are left out; \<open>index\<close>,
  \<open>get\<close> and \<open>collect\<close>, which only read, are left out as well.
\<close>

definition SUPPORTED_ACTIONS :: "string list" where
  "SUPPORTED_ACTIONS =
     [''add_nodes'', ''del_nodes'', ''scale_out'', ''scale_in'', ''resize'',
      ''policy_attach'', ''policy_detach'', ''policy_update'',
      ''check'', ''recover'', ''replace_nodes'']"

text \<open>The two \<open>except\<close> clauses that turn a validation failure into \<open>HTTPBadRequest\<close>.\<close>

definition except_ValueError :: "env \<Rightarrow> exn \<Rightarrow> ('s, 'a) io option" where
  "except_ValueError env e =
     (case e of ValueError m \<Rightarrow> Some (raise (HTTPBadRequest (text_type env e))) | _ \<Rightarrow> None)"

definition except_ValueError_ValidationError :: "env \<Rightarrow> exn \<Rightarrow> ('s, 'a) io option" where
  "except_ValueError_ValidationError env e =
     (case e of
        ValueError m \<Rightarrow> Some (raise (HTTPBadRequest (text_type env e)))
      | ValidationError m \<Rightarrow> Some (raise (HTTPBadRequest m))
      | _ \<Rightarrow> None)"

definition create :: "('c, 's) rpc_client \<Rightarrow> env \<Rightarrow> 'c request \<Rightarrow> json \<Rightarrow> ('s, json) io" where
  "create rpc env req body =
     bind (try_except
             (bind (lift (normalize_req env ''ClusterCreateRequest'' body (Some ''cluster''))) (\<lambda>norm_req.
              bind (lift (obj_from_primitive env ''ClusterCreateRequest'' norm_req)) (\<lambda>obj.
              bind (lift (validate env norm_req obj)) (\<lambda>_. return obj))))
             (except_ValueError env)) (\<lambda>obj.
     bind (py_attr obj ''cluster'') (\<lambda>obj_cluster.
     bind (rpc (Call2 (req_context req) ''cluster_create2'' obj_cluster)) (\<lambda>cluster.
     bind (py_pop cluster ''action'') (\<lambda>(action_id, cluster).
     return (JDict [(''cluster'', cluster), (''location'', location_of env action_id)])))))"

definition update ::
  "('c, 's) rpc_client \<Rightarrow> env \<Rightarrow> 'c request \<Rightarrow> string \<Rightarrow> json \<Rightarrow> ('s, json) io" where
  "update rpc env req cluster_id body =
     bind (py_get body ''cluster'' JNull) (\<lambda>data.
     if data = JNull then
       raise (HTTPBadRequest
         ''Malformed request data, missing 'cluster' key in request body.'')
     else
     bind (py_item body ''cluster'') (\<lambda>params.
     bind (py_setitem params ''identity'' (JStr cluster_id)) (\<lambda>params.
     bind (lift (normalize_req env ''ClusterUpdateRequest'' params None)) (\<lambda>norm_req.
     bind (try_except
             (bind (lift (obj_from_primitive env ''ClusterUpdateRequest'' norm_req)) (\<lambda>obj.
              bind (lift (validate env norm_req obj)) (\<lambda>_. return obj)))
             (except_ValueError_ValidationError env)) (\<lambda>obj.
     bind (rpc (Call2 (req_context req) ''cluster_update2'' obj)) (\<lambda>cluster.
     bind (py_pop cluster ''action'') (\<lambda>(action_id, cluster).
     return (JDict [(''cluster'', cluster), (''location'', location_of env action_id)]))))))))"

text \<open>An optional integer parameter: \<open>if x is not None: x = parse_int_param(...)\<close>.\<close>

definition parse_opt ::
  "env \<Rightarrow> string \<Rightarrow> json \<Rightarrow> bool \<Rightarrow> ('s, int option) io" where
  "parse_opt env name v allow_negative =
     (if v \<noteq> JNull then
        bind (lift (parse_int_param env name v allow_negative)) (\<lambda>n. return (Some n))
      else return None)"

definition do_resize ::
  "('c, 's) rpc_client \<Rightarrow> env \<Rightarrow> 'c request \<Rightarrow> string \<Rightarrow> string \<Rightarrow> json \<Rightarrow> ('s, json) io" where
  "do_resize rpc env req cluster_id this_action body =
     bind (py_get body this_action JNull) (\<lambda>data.
     bind (py_get data (ADJUSTMENT_TYPE env) JNull) (\<lambda>adj_type.
     bind (py_get data (ADJUSTMENT_NUMBER env) JNull) (\<lambda>number.
     bind (py_get data (ADJUSTMENT_MIN_SIZE env) JNull) (\<lambda>min_size.
     bind (py_get data (ADJUSTMENT_MAX_SIZE env) JNull) (\<lambda>max_size.
     bind (py_get data (ADJUSTMENT_MIN_STEP env) JNull) (\<lambda>min_step.
     bind (py_get data (ADJUSTMENT_STRICT env) JNull) (\<lambda>strict.
     bind (if adj_type \<noteq> JNull then
             if \<not> in_ADJUSTMENT_TYPES env adj_type then
               raise (InvalidParameter ''adjustment_type'' adj_type)
             else if number = JNull then
               raise (HTTPBadRequest ''Missing number value for resize operation.'')
             else return ()
           else return ()) (\<lambda>_.
     bind (if number \<noteq> JNull then
             if adj_type = JNull then
               raise (HTTPBadRequest ''Missing adjustment_type value for resize operation.'')
             else bind (lift (parse_int_param env (ADJUSTMENT_NUMBER env) number True))
                    (\<lambda>n. return (Some n))
           else return None) (\<lambda>number.
     bind (parse_opt env (ADJUSTMENT_MIN_SIZE env) min_size False) (\<lambda>min_size.
     bind (parse_opt env (ADJUSTMENT_MAX_SIZE env) max_size True) (\<lambda>max_size.
     bind (case (min_size, max_size) of
             (Some n, Some m) \<Rightarrow>
               if m > 0 \<and> n > m then
                 raise (HTTPBadRequest
                   (''The specified min_size ('' @ py_str env (JInt n) @
                    '') is greater than the specified max_size ('' @ py_str env (JInt m) @ '').''))
               else return ()
           | _ \<Rightarrow> return ()) (\<lambda>_.
     bind (parse_opt env (ADJUSTMENT_MIN_STEP env) min_step False) (\<lambda>min_step.
     bind (if strict \<noteq> JNull then lift (parse_bool_param env (ADJUSTMENT_STRICT env) strict)
           else return True) (\<lambda>strict.
     bind (rpc (ClusterResize (req_context req) cluster_id adj_type number min_size max_size
                  min_step strict)) (\<lambda>result.
     bind (py_item result ''action'') (\<lambda>action_id.
     py_update result ''location'' (location_of env action_id)))))))))))))))))"

definition sanitize_policy :: "env \<Rightarrow> json \<Rightarrow> ('s, json) io" where
  "sanitize_policy env data =
     (case data of
        JDict d \<Rightarrow>
          if map_of d (CP_POLICY_ID env) = None then
            raise (HTTPBadRequest ''The 'policy_id' field is missing in the request.'')
          else
            (case map_of d (CP_ENABLED env) of
               Some enabled \<Rightarrow>
                 bind (try_except (lift (parse_bool_param env (CP_ENABLED env) enabled))
                         (\<lambda>e. case e of
                            InvalidParameter n v \<Rightarrow> Some (raise (HTTPBadRequest (text_type env e)))
                          | _ \<Rightarrow> None)) (\<lambda>enabled.
                 return (JDict (AList.update (CP_ENABLED env) (JBool enabled) d)))
             | None \<Rightarrow> return data)
      | _ \<Rightarrow> raise (HTTPBadRequest ''The data provided is not a map.''))"

text \<open>The loop over \<open>params.items()\<close> in \<open>_replace_nodes\<close>.\<close>

fun check_nodes :: "(string \<times> json) list \<Rightarrow> ('s, unit) io" where
  "check_nodes [] = return ()"
| "check_nodes ((old_node, new_node) # items) =
     (if old_node = [] then
        raise (HTTPBadRequest ''The original node id could not be empty.'')
      else if \<not> truthy new_node then
        raise (HTTPBadRequest ''The replacement node id could not be empty.'')
      else check_nodes items)"

definition replace_nodes ::
  "('c, 's) rpc_client \<Rightarrow> env \<Rightarrow> 'c request \<Rightarrow> string \<Rightarrow> string \<Rightarrow> json \<Rightarrow> ('s, json) io" where
  "replace_nodes rpc env req cluster_id this_action body =
     bind (py_get body this_action JNull) (\<lambda>data.
     bind (py_get data ''nodes'' JNull) (\<lambda>params.
     if \<not> truthy params \<or> \<not> is_dict params then
       raise (HTTPBadRequest ''The data provided is not a map.'')
     else (case params of
       JDict items \<Rightarrow>
         bind (len_set (map snd items)) (\<lambda>n.
         if length (map snd items) \<noteq> n then
           raise (HTTPBadRequest ''The data provided contains duplicated nodes.'')
         else
         bind (check_nodes items) (\<lambda>_.
         bind (rpc (ClusterReplaceNodes (req_context req) cluster_id params)) (\<lambda>res.
         bind (py_item res ''action'') (\<lambda>action_id.
         py_update res ''location'' (location_of env action_id)))))
     | _ \<Rightarrow> raise (HTTPBadRequest ''The data provided is not a map.''))))"

definition add_nodes :: "('c, 's) rpc_client \<Rightarrow> env \<Rightarrow> 'c \<Rightarrow> string \<Rightarrow> json \<Rightarrow> ('s, json) io" where
  "add_nodes rpc env ctx cid nodes =
     (let params = JDict [(''identity'', JStr cid), (''nodes'', nodes)] in
      bind (lift (normalize_req env ''ClusterAddNodesRequest'' params None)) (\<lambda>norm_req.
      bind (try_except
              (bind (lift (obj_from_primitive env ''ClusterAddNodesRequest'' norm_req)) (\<lambda>obj.
               bind (lift (validate env norm_req obj)) (\<lambda>_. return obj)))
              (except_ValueError_ValidationError env)) (\<lambda>obj.
      rpc (Call2 ctx ''cluster_add_nodes2'' obj))))"

definition del_nodes :: "('c, 's) rpc_client \<Rightarrow> env \<Rightarrow> 'c \<Rightarrow> string \<Rightarrow> json \<Rightarrow> ('s, json) io" where
  "del_nodes rpc env ctx cid nodes =
     (let params = JDict [(''identity'', JStr cid), (''nodes'', nodes)] in
      bind (lift (normalize_req env ''ClusterDelNodesRequest'' params None)) (\<lambda>norm_req.
      bind (try_except
              (bind (lift (obj_from_primitive env ''ClusterDelNodesRequest'' norm_req)) (\<lambda>obj.
               bind (lift (validate env norm_req obj)) (\<lambda>_. return obj)))
              (except_ValueError_ValidationError env)) (\<lambda>obj.
      rpc (Call2 ctx ''cluster_del_nodes2'' obj))))"

text \<open>The end of \<open>action\<close>, shared by the branches that do not return on their own.\<close>

definition with_location :: "env \<Rightarrow> json \<Rightarrow> ('s, json) io" where
  "with_location env res =
     bind (py_item res ''action'') (\<lambda>action_id.
     py_update res ''location'' (location_of env action_id))"

definition action ::
  "('c, 's) rpc_client \<Rightarrow> env \<Rightarrow> 'c request \<Rightarrow> string \<Rightarrow> json \<Rightarrow> ('s, json) io" where
  "action rpc env req cluster_id body =
     (let body = (if truthy body then body else JDict []) in
      bind (py_len body) (\<lambda>n.
      if n < 1 then raise (HTTPBadRequest ''No action specified'')
      else if n > 1 then raise (HTTPBadRequest ''Multiple actions specified'')
      else
      bind (first_key body) (\<lambda>this_action.
      if this_action \<notin> set SUPPORTED_ACTIONS then
        raise (HTTPBadRequest
          (''Unrecognized action '' @ [CHR 0x27] @ this_action @ [CHR 0x27] @ '' specified''))
      else if this_action = ''add_nodes'' then
        bind (py_get body this_action JNull) (\<lambda>data.
        bind (py_get data ''nodes'' (JList [])) (\<lambda>nodes.
        bind (add_nodes rpc env (req_context req) cluster_id nodes) (with_location env)))
      else if this_action = ''del_nodes'' then
        bind (py_get body this_action JNull) (\<lambda>data.
        bind (py_get data ''nodes'' (JList [])) (\<lambda>nodes.
        bind (del_nodes rpc env (req_context req) cluster_id nodes) (with_location env)))
      else if this_action = ''resize'' then
        do_resize rpc env req cluster_id this_action body
      else if this_action = ''scale_out'' then
        bind (py_get body this_action JNull) (\<lambda>data.
        bind (py_get data ''count'' JNull) (\<lambda>count.
        bind (rpc (ClusterScaleOut (req_context req) cluster_id count)) (with_location env)))
      else if this_action = ''scale_in'' then
        bind (py_get body this_action JNull) (\<lambda>data.
        bind (py_get data ''count'' JNull) (\<lambda>count.
        bind (rpc (ClusterScaleIn (req_context req) cluster_id count)) (with_location env)))
      else if this_action = ''policy_attach'' then
        bind (py_get body this_action JNull) (\<lambda>raw_data.
        bind (sanitize_policy env raw_data) (\<lambda>data.
        bind (rpc (ClusterPolicyAttach (req_context req) cluster_id data)) (with_location env)))
      else if this_action = ''policy_detach'' then
        bind (py_get body this_action JNull) (\<lambda>data.
        bind (py_get data ''policy_id'' JNull) (\<lambda>policy_id.
        if \<not> truthy policy_id then raise (HTTPBadRequest ''No policy specified for detach.'')
        else
        bind (rpc (ClusterPolicyDetach (req_context req) cluster_id policy_id)) (with_location env)))
      else if this_action = ''policy_update'' then
        bind (py_get body this_action JNull) (\<lambda>raw_data.
        bind (sanitize_policy env raw_data) (\<lambda>data.
        bind (rpc (ClusterPolicyUpdate (req_context req) cluster_id data)) (with_location env)))
      else if this_action = ''check'' then
        bind (py_get body this_action JNull) (\<lambda>params.
        if \<not> is_dict params then raise (HTTPBadRequest ''The params provided is not a map.'')
        else
        bind (rpc (ClusterCheck (req_context req) cluster_id params)) (with_location env))
      else if this_action = ''replace_nodes'' then
        replace_nodes rpc env req cluster_id this_action body
      else
        bind (py_get body this_action JNull) (\<lambda>params.
        if \<not> is_dict params then raise (HTTPBadRequest ''The params provided is not a map.'')
        else
        bind (rpc (ClusterRecover (req_context req) cluster_id params)) (with_location env)))))"

definition delete ::
  "('c, 's) rpc_client \<Rightarrow> env \<Rightarrow> 'c request \<Rightarrow> string \<Rightarrow> ('s, json) io" where
  "delete rpc env req cluster_id =
     bind (rpc (ClusterDelete (req_context req) cluster_id False)) (\<lambda>res.
     bind (py_pop res ''action'') (\<lambda>(action_id, res).
     return (JDict [(''location'', location_of env action_id)])))"

subsection \<open>Observing the RPC calls\<close>

text \<open>
  The client wrapped so that every call made is appended, with its outcome, to a trace
  kept next to the engine's state.
\<close>

definition traced_rpc ::
  "('c, 's) rpc_client \<Rightarrow> ('c, 's \<times> ('c rpc_call \<times> (exn + json)) list) rpc_client" where
  "traced_rpc rpc c = (\<lambda>(s, tr). case rpc c s of (r, s') \<Rightarrow> (r, (s', tr @ [(c, r)])))"


subsection \<open>Auxiliary notions for the controller\<close>

text \<open>A computation that leaves the state as it found it.\<close>

definition pure :: "('s, 'a) io \<Rightarrow> bool" where
  "pure m \<longleftrightarrow> (\<forall>s. snd (m s) = s)"

text \<open>
  What a successful mutating operation has done: the trace holds exactly one RPC call,
  the call returned a dictionary with an \<open>action\<close> entry, and the result of the
  operation is a dictionary whose \<open>location\<close> entry is the string \<open>/actions/\<close>
  followed by that action id: by the id itself when it is a string, and by what
  \<open>str\<close> prints for it otherwise.
\<close>

definition located :: "env \<Rightarrow> json \<Rightarrow> ('c rpc_call \<times> (exn + json)) list \<Rightarrow> bool" where
  "located env res tr =
     (case tr of
        [(c, Inr (JDict reply))] \<Rightarrow>
          (case (map_of reply ''action'', res) of
             (Some action_id, JDict r) \<Rightarrow>
               map_of r ''location'' =
                 Some (JStr (''/actions/'' @
                   (case action_id of JStr a \<Rightarrow> a | _ \<Rightarrow> py_str env action_id)))
           | _ \<Rightarrow> False)
      | _ \<Rightarrow> False)"

text \<open>
  The part of \<open>_do_resize\<close> between reading the fields of the request and the RPC
  call: it raises or yields the call that is made.
\<close>

definition resize_call :: "env \<Rightarrow> 'c request \<Rightarrow> string \<Rightarrow> (string \<times> json) list \<Rightarrow> ('s, 'c rpc_call) io" where
  "resize_call env req cluster_id data =
     (let adj_type = get_default data (ADJUSTMENT_TYPE env) JNull;
          number = get_default data (ADJUSTMENT_NUMBER env) JNull;
          min_size = get_default data (ADJUSTMENT_MIN_SIZE env) JNull;
          max_size = get_default data (ADJUSTMENT_MAX_SIZE env) JNull;
          min_step = get_default data (ADJUSTMENT_MIN_STEP env) JNull;
          strict = get_default data (ADJUSTMENT_STRICT env) JNull in
     bind (if adj_type \<noteq> JNull then
             if \<not> in_ADJUSTMENT_TYPES env adj_type then
               raise (InvalidParameter ''adjustment_type'' adj_type)
             else if number = JNull then
               raise (HTTPBadRequest ''Missing number value for resize operation.'')
             else return ()
           else return ()) (\<lambda>_.
     bind (if number \<noteq> JNull then
             if adj_type = JNull then
               raise (HTTPBadRequest ''Missing adjustment_type value for resize operation.'')
             else bind (lift (parse_int_param env (ADJUSTMENT_NUMBER env) number True))
                    (\<lambda>n. return (Some n))
           else return None) (\<lambda>number.
     bind (parse_opt env (ADJUSTMENT_MIN_SIZE env) min_size False) (\<lambda>min_size.
     bind (parse_opt env (ADJUSTMENT_MAX_SIZE env) max_size True) (\<lambda>max_size.
     bind (case (min_size, max_size) of
             (Some n, Some m) \<Rightarrow>
               if m > 0 \<and> n > m then
                 raise (HTTPBadRequest
                   (''The specified min_size ('' @ py_str env (JInt n) @
                    '') is greater than the specified max_size ('' @ py_str env (JInt m) @ '').''))
               else return ()
           | _ \<Rightarrow> return ()) (\<lambda>_.
     bind (parse_opt env (ADJUSTMENT_MIN_STEP env) min_step False) (\<lambda>min_step.
     bind (if strict \<noteq> JNull then lift (parse_bool_param env (ADJUSTMENT_STRICT env) strict)
           else return True) (\<lambda>strict.
     return (ClusterResize (req_context req) cluster_id adj_type number min_size max_size
                  min_step strict)))))))))"

subsection \<open>An example environment\<close>

text \<open>
  An environment on which the controller can be run: the field names of
  \<open>senlin.common.consts\<close>, integer and boolean parsers that accept JSON integers and
  booleans only, a validation that accepts every request, and an RPC client that
  answers every call with the action id \<open>a-1\<close> and counts the calls.
\<close>

fun show_nat :: "nat \<Rightarrow> string" where
  "show_nat n =
     (if n < 10 then [''0123456789'' ! n]
      else show_nat (n div 10) @ [''0123456789'' ! (n mod 10)])"

declare show_nat.simps [simp del]

definition show_int :: "int \<Rightarrow> string" where
  "show_int i = (if i < 0 then ''-'' @ show_nat (nat (- i)) else show_nat (nat i))"

definition env0 :: env where
  "env0 = \<lparr>
     parse_int_param = (\<lambda>name v allow_negative.
       case v of
         JInt i \<Rightarrow> if i < 0 \<and> \<not> allow_negative then Inl (InvalidParameter name v) else Inr i
       | _ \<Rightarrow> Inl (InvalidParameter name v)),
     parse_bool_param = (\<lambda>name v.
       case v of JBool b \<Rightarrow> Inr b | _ \<Rightarrow> Inl (InvalidParameter name v)),
     normalize_req = (\<lambda>name body key. Inr body),
     obj_from_primitive = (\<lambda>name prim. Inr prim),
     validate = (\<lambda>norm_req obj. Inr ()),
     text_type = (\<lambda>e. case e of ValueError m \<Rightarrow> m | ValidationError m \<Rightarrow> m
                    | HTTPBadRequest m \<Rightarrow> m | _ \<Rightarrow> ''invalid value''),
     py_str = (\<lambda>v. case v of JInt i \<Rightarrow> show_int i | JNull \<Rightarrow> ''None''
                    | JBool b \<Rightarrow> (if b then ''True'' else ''False'') | _ \<Rightarrow> ''...''),
     ADJUSTMENT_TYPES = [''EXACT_CAPACITY'', ''CHANGE_IN_CAPACITY'', ''CHANGE_IN_PERCENTAGE''],
     ADJUSTMENT_TYPE = ''adjustment_type'',
     ADJUSTMENT_NUMBER = ''number'',
     ADJUSTMENT_MIN_SIZE = ''min_size'',
     ADJUSTMENT_MAX_SIZE = ''max_size'',
     ADJUSTMENT_MIN_STEP = ''min_step'',
     ADJUSTMENT_STRICT = ''strict'',
     CP_POLICY_ID = ''policy_id'',
     CP_ENABLED = ''enabled'' \<rparr>"

definition rpc0 :: "(unit, nat) rpc_client" where
  "rpc0 c n = (Inr (JDict [(''action'', JStr ''a-1'')]), Suc n)"

text \<open>An RPC client that answers every call with the action id it is given.\<close>

definition rpc1 :: "string \<Rightarrow> (unit, nat) rpc_client" where
  "rpc1 a c n = (Inr (JDict [(''action'', JStr a)]), Suc n)"

definition req0 :: "unit request" where
  "req0 = \<lparr>req_context = ()\<rparr>"

section \<open>The lock manager\<close>

text \<open>
  Modelled from the spec: the lock manager (sections 3, 4.2 and 5 of the
  specification) is not among the sources; the store of lock rows and the operations
  \<open>tryAcquire\<close>, \<open>release\<close> and \<open>reclaimExpired\<close> follow the specification's words. A
  lock row is keyed by resource type and resource id and is live while the clock is
  before its lease expiry. Every operation is one atomic conditional update of the
  store, so concurrent submitters are the interleavings of their requests: a run is
  a list of requests, applied in the order in which the store serialises them, with
  the passing of time as a request of its own.
\<close>

text \<open>Modelled from the spec: the target types of an action (section 3).\<close>

datatype resource_type = CLUSTER | NODE

text \<open>Modelled from the spec: a lock row, with the fields section 3 lists.\<close>

record lock =
  lock_type :: resource_type
  lock_resource :: string
  holder_action :: string
  holder_engine :: string
  acquired_at :: nat
  lease_expiry :: nat

text \<open>Modelled from the spec: the shared store of locks, with the time at which it is read.\<close>

record lock_store =
  clock :: nat
  locks :: "lock list"

text \<open>Modelled from the spec: the unique key of a row, resource type and resource id.\<close>

definition lock_key :: "lock \<Rightarrow> resource_type \<times> string" where
  "lock_key l = (lock_type l, lock_resource l)"

text \<open>Modelled from the spec: a lock is live until its lease expires.\<close>

definition live_lock :: "nat \<Rightarrow> lock \<Rightarrow> bool" where
  "live_lock now l = (now < lease_expiry l)"

text \<open>
  Modelled from the spec: \<open>tryAcquire\<close> succeeds iff no live lock exists for the key;
  it does not block. The new row takes the place of an expired row of the same key,
  the key being unique.
\<close>

definition tryAcquire ::
  "resource_type \<Rightarrow> string \<Rightarrow> string \<Rightarrow> string \<Rightarrow> nat \<Rightarrow> lock_store \<Rightarrow> bool \<times> lock_store" where
  "tryAcquire rt res_id action_id engine_id lease st =
     (if \<exists>l \<in> set (locks st). lock_key l = (rt, res_id) \<and> live_lock (clock st) l
      then (False, st)
      else (True, st\<lparr>locks :=
              \<lparr>lock_type = rt, lock_resource = res_id, holder_action = action_id,
               holder_engine = engine_id, acquired_at = clock st,
               lease_expiry = clock st + lease\<rparr> #
              filter (\<lambda>l. lock_key l \<noteq> (rt, res_id)) (locks st)\<rparr>))"

text \<open>
  Modelled from the spec: \<open>release\<close> removes the lock only if the caller is the
  current holder; otherwise it changes nothing and reports the error (\<open>False\<close>).
\<close>

definition release :: "resource_type \<Rightarrow> string \<Rightarrow> string \<Rightarrow> lock_store \<Rightarrow> bool \<times> lock_store" where
  "release rt res_id action_id st =
     (if \<exists>l \<in> set (locks st). lock_key l = (rt, res_id) \<and> holder_action l = action_id
      then (True, st\<lparr>locks := filter (\<lambda>l. lock_key l \<noteq> (rt, res_id)) (locks st)\<rparr>)
      else (False, st))"

text \<open>Modelled from the spec: \<open>reclaimExpired\<close> deletes the locks whose lease has expired.\<close>

definition reclaimExpired :: "lock_store \<Rightarrow> lock_store" where
  "reclaimExpired st = st\<lparr>locks := filter (live_lock (clock st)) (locks st)\<rparr>"

text \<open>
  Modelled from the spec: the requests that reach the store, and the store serving
  them one at a time.
\<close>

datatype lock_request =
    TryAcquire resource_type string string string nat
  | Release resource_type string string
  | ReclaimExpired
  | Tick nat

fun serve :: "lock_request \<Rightarrow> lock_store \<Rightarrow> lock_store" where
  "serve (TryAcquire rt res_id action_id engine_id lease) st =
     snd (tryAcquire rt res_id action_id engine_id lease st)"
| "serve (Release rt res_id action_id) st = snd (release rt res_id action_id st)"
| "serve ReclaimExpired st = reclaimExpired st"
| "serve (Tick d) st = st\<lparr>clock := clock st + d\<rparr>"

fun run :: "lock_request list \<Rightarrow> lock_store \<Rightarrow> lock_store" where
  "run [] st = st"
| "run (r # rs) st = run rs (serve r st)"




section \<open>Properties of the load-balancer driver\<close>

subsection \<open>The readiness wait\<close>

lemma rounds_step: "waited < timeout \<Longrightarrow> rounds timeout waited = Suc (rounds timeout (waited + 2))"
  unfolding rounds_def by (simp add: nat_eq_iff) 

lemma rounds_done: "\<not> waited < timeout \<Longrightarrow> rounds timeout waited = 0"
  unfolding rounds_def by simp

lemma poll_Suc: "poll nc lb_id (Suc i) s = poll nc lb_id i (sleep nc 2 (snd (loadbalancer_get nc lb_id s)))"
  by (simp add: poll_def)

lemma poll_0: "poll nc lb_id 0 s = loadbalancer_get nc lb_id s"
  by (simp add: poll_def)

lemma wait_loop_timeout:
  "\<forall>i < rounds timeout waited. pending ign (fst (poll nc lb_id i s)) \<Longrightarrow>
   wait_loop nc lb_id timeout ign waited s = (Inr False, poll_state nc lb_id (rounds timeout waited) s)"
proof (induction nc lb_id timeout ign waited s rule: wait_loop.induct)
  case (1 nc lb_id timeout ign waited s)
  show ?case
  proof (cases "waited < timeout")
    case False
    then show ?thesis by (simp add: wait_loop.simps rounds_done)
  next
    case True
    note r = rounds_step [OF True]
    from "1.prems" r have p0: "pending ign (fst (poll nc lb_id 0 s))" by simp
    then obtain lb s' where g: "loadbalancer_get nc lb_id s = (Inr lb, s')" and nr: "\<not> lb_is_ready ign lb"
      by (cases "loadbalancer_get nc lb_id s") (auto simp: poll_0 pending_def split: sum.splits)
    have rest: "\<forall>i < rounds timeout (waited + 2). pending ign (fst (poll nc lb_id i (sleep nc 2 s')))"
      using "1.prems" r g by (auto simp: poll_Suc dest: spec [where x = "Suc i" for i])
    have "wait_loop nc lb_id timeout ign (waited + 2) (sleep nc 2 s') =
          (Inr False, poll_state nc lb_id (rounds timeout (waited + 2)) (sleep nc 2 s'))"
      using "1.IH" [OF True g [symmetric] refl nr rest] .
    then show ?thesis
      using True g nr r by (subst wait_loop.simps) simp
  qed
qed

lemma wait_loop_decided:
  "k < rounds timeout waited \<Longrightarrow> \<forall>i < k. pending ign (fst (poll nc lb_id i s)) \<Longrightarrow>
   \<not> pending ign (fst (poll nc lb_id k s)) \<Longrightarrow>
   wait_loop nc lb_id timeout ign waited s =
     (case fst (poll nc lb_id k s) of Inl e \<Rightarrow> Inl e | Inr lb \<Rightarrow> Inr True, snd (poll nc lb_id k s))"
proof (induction nc lb_id timeout ign waited s arbitrary: k rule: wait_loop.induct)
  case (1 nc lb_id timeout ign waited s)
  from "1.prems"(1) have True: "waited < timeout"
    by (cases "waited < timeout") (simp_all add: rounds_done)
  note r = rounds_step [OF True]
  show ?case
  proof (cases k)
    case 0
    with "1.prems"(3) True show ?thesis
      by (subst wait_loop.simps) (auto simp: poll_0 pending_def split: sum.splits prod.splits)
  next
    case (Suc j)
    from "1.prems"(2) Suc have p0: "pending ign (fst (poll nc lb_id 0 s))" by simp
    then obtain lb s' where g: "loadbalancer_get nc lb_id s = (Inr lb, s')" and nr: "\<not> lb_is_ready ign lb"
      by (cases "loadbalancer_get nc lb_id s") (auto simp: poll_0 pending_def split: sum.splits)
    have j: "j < rounds timeout (waited + 2)" using "1.prems"(1) Suc r by simp
    have rest: "\<forall>i < j. pending ign (fst (poll nc lb_id i (sleep nc 2 s')))"
      using "1.prems"(2) Suc g by (auto simp: poll_Suc dest: spec [where x = "Suc i" for i])
    have last: "\<not> pending ign (fst (poll nc lb_id j (sleep nc 2 s')))"
      using "1.prems"(3) Suc g by (simp add: poll_Suc)
    have "wait_loop nc lb_id timeout ign (waited + 2) (sleep nc 2 s') =
       (case fst (poll nc lb_id j (sleep nc 2 s')) of Inl e \<Rightarrow> Inl e | Inr lb \<Rightarrow> Inr True,
        snd (poll nc lb_id j (sleep nc 2 s')))"
      using "1.IH" [OF True g [symmetric] refl nr j rest last] .
    then show ?thesis
      using True g nr Suc by (subst wait_loop.simps) (simp add: poll_Suc)
  qed
qed


text \<open>
  C4. \<open>_wait_for_lb_ready\<close> is a total function (its termination is proved with the
  measure \<open>timeout - waited\<close>), and its result is fixed by the first of at most
  \<open>max_polls timeout\<close> polls, two seconds apart, that does not find the load balancer
  still pending: if every poll finds it pending the call returns \<open>False\<close> after
  \<open>max_polls timeout\<close> rounds, when the accumulated wait has reached the timeout; if
  poll \<open>k\<close> is the first to find it ready (\<open>ACTIVE\<close> and \<open>ONLINE\<close>, or absent while
  \<open>ignore_not_found\<close> is set) the call returns \<open>True\<close> at once, in the state that poll
  left; if poll \<open>k\<close> raises, so does the call. Polls are made only while the
  accumulated wait \<open>2 * i\<close> is below the timeout. This holds for every timeout, the
  negative ones included, for which no poll is made.
\<close>

theorem wait_for_lb_ready_terminates:
  "((\<forall>i < max_polls timeout. pending ign (fst (poll nc lb_id i s))) \<longrightarrow>
      wait_for_lb_ready nc lb_id timeout ign s =
        (Inr False, poll_state nc lb_id (max_polls timeout) s)) \<and>
   (\<forall>k lb s'. k < max_polls timeout \<and> (\<forall>i < k. pending ign (fst (poll nc lb_id i s))) \<and>
      poll nc lb_id k s = (Inr lb, s') \<and> lb_is_ready ign lb \<longrightarrow>
      wait_for_lb_ready nc lb_id timeout ign s = (Inr True, s')) \<and>
   (\<forall>k e s'. k < max_polls timeout \<and> (\<forall>i < k. pending ign (fst (poll nc lb_id i s))) \<and>
      poll nc lb_id k s = (Inl e, s') \<longrightarrow>
      wait_for_lb_ready nc lb_id timeout ign s = (Inl e, s')) \<and>
   (\<forall>i < max_polls timeout. 2 * int i < timeout) \<and>
   timeout \<le> 2 * int (max_polls timeout)"
proof -
  have m: "max_polls timeout = rounds timeout 0"
    by (simp add: max_polls_def rounds_def)
  have a: "(\<forall>i < max_polls timeout. pending ign (fst (poll nc lb_id i s))) \<longrightarrow>
      wait_for_lb_ready nc lb_id timeout ign s =
        (Inr False, poll_state nc lb_id (max_polls timeout) s)"
    unfolding wait_for_lb_ready_def m using wait_loop_timeout [of timeout 0 ign nc lb_id s]
    by blast
  have b: "wait_for_lb_ready nc lb_id timeout ign s = (Inr True, s')"
    if "k < max_polls timeout" "\<forall>i < k. pending ign (fst (poll nc lb_id i s))"
      "poll nc lb_id k s = (Inr lb, s')" "lb_is_ready ign lb" for k lb s'
    unfolding wait_for_lb_ready_def
    using wait_loop_decided [of k timeout 0 ign nc lb_id s] that
    by (simp add: m pending_def)
  have c: "wait_for_lb_ready nc lb_id timeout ign s = (Inl e, s')"
    if "k < max_polls timeout" "\<forall>i < k. pending ign (fst (poll nc lb_id i s))"
      "poll nc lb_id k s = (Inl e, s')" for k e s'
    unfolding wait_for_lb_ready_def
    using wait_loop_decided [of k timeout 0 ign nc lb_id s] that
    by (simp add: m pending_def)
  have d: "\<forall>i < max_polls timeout. 2 * int i < timeout"
    unfolding max_polls_def by auto
  have e: "timeout \<le> 2 * int (max_polls timeout)"
    unfolding max_polls_def by auto
  from a b c d e show ?thesis by blast
qed

subsection \<open>The calls a run leaves in the trace\<close>

lemma bind_returns:
  assumes "bind m f s = (Inr b, s'')"
  obtains a s' where "m s = (Inr a, s')" and "f a s' = (Inr b, s'')"
  using assms unfolding bind_def by (auto split: prod.splits sum.splits)

lemma item_returns:
  assumes "item d k s = (Inr v, s')"
  shows "s' = s"
  using assms unfolding item_def return_def raise_def by (auto split: option.splits)

lemma return_returns [simp]: "return a s = (Inr b, s') \<longleftrightarrow> b = a \<and> s' = s"
  unfolding return_def by auto

lemma traced_call_returns:
  assumes "traced_call m ev (s, tr) = (Inr a, st')"
  shows "snd st' = tr @ [ev a]"
  using assms unfolding traced_call_def by (auto split: prod.splits sum.splits)

lemma traced_simps [simp]:
  "loadbalancer_create (traced nc) a b c = traced_call (loadbalancer_create nc a b c) (\<lambda>r. Create Loadbalancer (rid r))"
  "loadbalancer_get (traced nc) i = traced_call (loadbalancer_get nc i) (\<lambda>_. Get i)"
  "loadbalancer_delete (traced nc) i = traced_call (loadbalancer_delete nc i) (\<lambda>_. Delete Loadbalancer i)"
  "listener_create (traced nc) a' b' c' d' e' = traced_call (listener_create nc a' b' c' d' e') (\<lambda>r. Create Listener (rid r))"
  "listener_delete (traced nc) i = traced_call (listener_delete nc i) (\<lambda>_. Delete Listener i)"
  "pool_create (traced nc) a'' b'' c'' d'' = traced_call (pool_create nc a'' b'' c'' d'') (\<lambda>r. Create Pool (rid r))"
  "pool_delete (traced nc) i = traced_call (pool_delete nc i) (\<lambda>_. Delete Pool i)"
  "healthmonitor_delete (traced nc) i = traced_call (healthmonitor_delete nc i) (\<lambda>_. Delete Healthmonitor i)"
  "sleep (traced nc) n = (\<lambda>(s, tr). (sleep nc n s, tr @ [Sleep n]))"
  by (simp_all add: traced_def)

lemma wait_loop_traced:
  "nc' = traced nc \<Longrightarrow> wait_loop nc' lb_id timeout ign waited st = (r, st') \<Longrightarrow>
   \<exists>ex. snd st' = snd st @ ex \<and> wait_trace lb_id r ex"
proof (induction nc' lb_id timeout ign waited st rule: wait_loop.induct)
  case (1 nc' lb_id timeout ign waited st)
  obtain s tr where st: "st = (s, tr)" by (cases st)
  show ?case
  proof (cases "waited < timeout")
    case False
    with "1.prems" show ?thesis
      by (auto simp add: wait_loop.simps wait_trace_def)
  next
    case True
    have unf: "wait_loop nc' lb_id timeout ign waited st =
      (case loadbalancer_get nc' lb_id st of
         (Inl e, s') \<Rightarrow> (Inl e, s')
       | (Inr lb, s') \<Rightarrow>
           if lb_is_ready ign lb then (Inr True, s')
           else wait_loop nc' lb_id timeout ign (waited + 2) (sleep nc' 2 s'))"
      using True by (subst wait_loop.simps) simp
    show ?thesis
    proof (cases "loadbalancer_get nc lb_id s")
      case (Pair g s1)
      show ?thesis
      proof (cases g)
        case (Inl e)
        have "loadbalancer_get nc' lb_id st = (Inl e, (s1, tr))"
          using Inl Pair "1.prems"(1) st by (simp add: traced_call_def)
        with "1.prems"(2) unf have "r = Inl e" "st' = (s1, tr)" by auto
        then show ?thesis using st by (simp add: wait_trace_def)
      next
        case (Inr lb)
        have g': "loadbalancer_get nc' lb_id st = (Inr lb, (s1, tr @ [Get lb_id]))"
          using Inr Pair "1.prems"(1) st by (simp add: traced_call_def)
        show ?thesis
        proof (cases "lb_is_ready ign lb")
          case ready: True
          with g' "1.prems"(2) unf have "r = Inr True" "st' = (s1, tr @ [Get lb_id])"
            by auto
          then show ?thesis using st by (simp add: wait_trace_def)
        next
          case nready: False
          have rec: "wait_loop nc' lb_id timeout ign (waited + 2) (sleep nc' 2 (s1, tr @ [Get lb_id])) = (r, st')"
            using "1.prems"(2) unf g' nready by simp
          from "1.IH" [OF True g' [symmetric] refl nready "1.prems"(1) rec]
          obtain ex where ex: "snd st' = snd (sleep nc' 2 (s1, tr @ [Get lb_id])) @ ex" "wait_trace lb_id r ex"
            by blast
          have "snd st' = snd st @ (Get lb_id # Sleep 2 # ex)"
            using ex(1) "1.prems"(1) st by simp
          moreover have "wait_trace lb_id r (Get lb_id # Sleep 2 # ex)"
            using ex(2) by (auto simp: wait_trace_def)
          ultimately show ?thesis by blast
        qed
      qed
    qed
  qed
qed

lemma wait_traced:
  assumes "wait_for_lb_ready (traced nc) lb_id timeout ign st = (r, st')"
  obtains ex where "snd st' = snd st @ ex" and "wait_trace lb_id r ex"
  using wait_loop_traced [OF refl assms [unfolded wait_for_lb_ready_def]] by blast


lemma wait_trace_changes: "wait_trace lb_id r ex \<Longrightarrow> changes ex = []"
  unfolding wait_trace_def changes_def by (auto simp: filter_empty_conv)

lemma changes_append [simp]: "changes (xs @ ys) = changes xs @ changes ys"
  by (simp add: changes_def)

lemma changes_single [simp]:
  "changes [Create k i] = [Create k i]" "changes [Delete k i] = [Delete k i]" "changes [] = []"
  by (simp_all add: changes_def)

lemma wait_traced_changes:
  assumes "wait_for_lb_ready (traced nc) lb_id timeout ign st = (r, st')"
  shows "changes (snd st') = changes (snd st)"
  using assms by (elim wait_traced) (simp add: wait_trace_changes)

lemma delete_step_traced:
  assumes "if_truthy v (\<lambda>i. bind (traced_call (del i) (\<lambda>_. Delete k i)) (\<lambda>_.
             bind (wait_for_lb_ready (traced nc) lb_id 60 False) (\<lambda>_. return ()))) st = (Inr u, st')"
  shows "changes (snd st') = changes (snd st) @ deleted k v"
proof (cases "\<exists>i. v = Some i \<and> i \<noteq> []")
  case False
  with assms show ?thesis
    by (auto simp: if_truthy_def deleted_def split: option.splits if_splits)
next
  case True
  then obtain i where v: "v = Some i" "i \<noteq> []" by blast
  with assms have b: "bind (traced_call (del i) (\<lambda>_. Delete k i)) (\<lambda>_.
             bind (wait_for_lb_ready (traced nc) lb_id 60 False) (\<lambda>_. return ())) st = (Inr u, st')"
    by (simp add: if_truthy_def)
  obtain s tr where st: "st = (s, tr)" by (cases st)
  from b obtain a st1 where d: "traced_call (del i) (\<lambda>_. Delete k i) st = (Inr a, st1)"
    and w: "bind (wait_for_lb_ready (traced nc) lb_id 60 False) (\<lambda>_. return ()) st1 = (Inr u, st')"
    by (rule bind_returns)
  from w obtain r st2 where w': "wait_for_lb_ready (traced nc) lb_id 60 False st1 = (Inr r, st2)"
    and "return () st2 = (Inr u, st')"
    by (rule bind_returns)
  then have "st' = st2" by simp
  moreover have "snd st1 = tr @ [Delete k i]"
    using d st traced_call_returns by fastforce
  moreover have "changes (snd st2) = changes (snd st1)"
    using w' by (rule wait_traced_changes)
  ultimately show ?thesis using v st by (simp add: deleted_def)
qed

lemma lb_delete_traced:
  assumes "lb_delete (traced nc) kwargs st = (Inr r, st')"
  shows "\<exists>lb_id. kwargs ''loadbalancer'' = Some lb_id \<and> r = (True, ''LB deletion succeeded'') \<and>
     changes (snd st') = changes (snd st) @ deleted Healthmonitor (kwargs ''healthmonitor'') @
       deleted Pool (kwargs ''pool'') @ deleted Listener (kwargs ''listener'') @
       [Delete Loadbalancer lb_id]"
proof (cases "kwargs ''loadbalancer''")
  case None
  with assms show ?thesis by (simp add: lb_delete_def raise_def)
next
  case (Some lb_id)
  obtain s tr where st: "st = (s, tr)" by (cases st)
  from assms Some obtain u1 st1 u2 st2 u3 st3 u4 st4 r5 st5 where
    1: "if_truthy (kwargs ''healthmonitor'') (\<lambda>i. bind (traced_call (healthmonitor_delete nc i) (\<lambda>_. Delete Healthmonitor i)) (\<lambda>_.
             bind (wait_for_lb_ready (traced nc) lb_id 60 False) (\<lambda>_. return ()))) st = (Inr u1, st1)" and
    2: "if_truthy (kwargs ''pool'') (\<lambda>i. bind (traced_call (pool_delete nc i) (\<lambda>_. Delete Pool i)) (\<lambda>_.
             bind (wait_for_lb_ready (traced nc) lb_id 60 False) (\<lambda>_. return ()))) st1 = (Inr u2, st2)" and
    3: "if_truthy (kwargs ''listener'') (\<lambda>i. bind (traced_call (listener_delete nc i) (\<lambda>_. Delete Listener i)) (\<lambda>_.
             bind (wait_for_lb_ready (traced nc) lb_id 60 False) (\<lambda>_. return ()))) st2 = (Inr u3, st3)" and
    4: "traced_call (loadbalancer_delete nc lb_id) (\<lambda>_. Delete Loadbalancer lb_id) st3 = (Inr u4, st4)" and
    5: "wait_for_lb_ready (traced nc) lb_id 1 False st4 = (Inr r5, st5)" and
    6: "return (True, ''LB deletion succeeded'') st5 = (Inr r, st')"
    unfolding lb_delete_def by simp (elim bind_returns, auto)
  have "snd st4 = snd st3 @ [Delete Loadbalancer lb_id]"
    using 4 traced_call_returns [of _ _ "fst st3" "snd st3"] by simp
  then show ?thesis
    using Some delete_step_traced [OF 1] delete_step_traced [OF 2] delete_step_traced [OF 3]
      wait_traced_changes [OF 5] 6 by simp
qed


lemma traced_call_returns':
  assumes "traced_call m ev st = (Inr a, st')"
  shows "snd st' = snd st @ [ev a]"
  using assms traced_call_returns [of m ev "fst st" "snd st"] by simp

lemma cleanup_traced:
  assumes "cleanup (traced nc) msg kwargs st = (Inr u, st')"
  shows "\<exists>lb_id. kwargs ''loadbalancer'' = Some lb_id \<and>
     changes (snd st') = changes (snd st) @ deleted Healthmonitor (kwargs ''healthmonitor'') @
       deleted Pool (kwargs ''pool'') @ deleted Listener (kwargs ''listener'') @
       [Delete Loadbalancer lb_id]"
  using assms unfolding cleanup_def
  by (elim bind_returns) (auto dest!: lb_delete_traced)

lemma wait_traced_True:
  assumes "wait_for_lb_ready (traced nc) lb_id timeout ign st = (Inr True, st')"
  shows "\<exists>w. snd st' = snd st @ w \<and> polls_of lb_id w"
  using assms by (elim wait_traced) (auto simp: wait_trace_def polls_of_def)

lemma lb_create_traced:
  assumes "lb_create (traced nc) vip pool st = (Inr (ok, p), st')"
  shows "(\<exists>lb. \<not> ok \<and> p = Msg (''Failed in creating load balancer ('' @ lb @ '').'') \<and>
            changes (snd st') = changes (snd st) @ [Create Loadbalancer lb, Delete Loadbalancer lb])
       \<or> (\<exists>lb li. \<not> ok \<and> p = Msg (''Failed in creating listener ('' @ li @ '').'') \<and>
            changes (snd st') = changes (snd st) @ [Create Loadbalancer lb, Create Listener li] @
              deleted Listener (Some li) @ [Delete Loadbalancer lb])
       \<or> (\<exists>lb li po. \<not> ok \<and> p = Msg (''Failed in creating pool ('' @ po @ '').'') \<and>
            changes (snd st') = changes (snd st) @
              [Create Loadbalancer lb, Create Listener li, Create Pool po] @
              deleted Pool (Some po) @ deleted Listener (Some li) @ [Delete Loadbalancer lb])
       \<or> (\<exists>lb li po w1 w2 w3. ok \<and>
            p = Result [''loadbalancer'' \<mapsto> lb, ''listener'' \<mapsto> li, ''pool'' \<mapsto> po] \<and>
            snd st' = snd st @ Create Loadbalancer lb # w1 @ Create Listener li # w2 @
              Create Pool po # w3 \<and>
            polls_of lb w1 \<and> polls_of lb w2 \<and> polls_of lb w3)"
proof -
  from assms obtain subnet admin lb st1 res1 st2 where
    c1: "traced_call (loadbalancer_create nc subnet (get_default vip ''address'' JNull) admin)
           (\<lambda>r. Create Loadbalancer (rid r)) st = (Inr lb, st1)" and
    w1: "wait_for_lb_ready (traced nc) (rid lb) 60 False st1 = (Inr res1, st2)" and
    k1: "(if \<not> res1 then
       let msg = ''Failed in creating load balancer ('' @ rid lb @ '').'' in
       bind (cleanup (traced nc) msg [''loadbalancer'' \<mapsto> rid lb]) (\<lambda>_. return (False, Msg msg))
     else
     bind (item vip ''protocol'') (\<lambda>protocol.
     bind (item vip ''protocol_port'') (\<lambda>protocol_port.
     bind (item vip ''admin_state_up'') (\<lambda>admin_state_up.
     bind (listener_create (traced nc) (rid lb) protocol protocol_port
             (get_default vip ''connection_limit'' JNull) admin_state_up) (\<lambda>listener.
     let result = [''loadbalancer'' \<mapsto> rid lb, ''listener'' \<mapsto> rid listener] in
     bind (wait_for_lb_ready (traced nc) (rid lb) 60 False) (\<lambda>res.
     if \<not> res then
       let msg = ''Failed in creating listener ('' @ rid listener @ '').'' in
       bind (cleanup (traced nc) msg result) (\<lambda>_. return (res, Msg msg))
     else
     bind (item pool ''lb_method'') (\<lambda>lb_method.
     bind (item pool ''protocol'') (\<lambda>protocol.
     bind (item pool ''admin_state_up'') (\<lambda>admin_state_up.
     bind (pool_create (traced nc) lb_method (rid listener) protocol admin_state_up) (\<lambda>pool.
     let result = result(''pool'' \<mapsto> rid pool) in
     bind (wait_for_lb_ready (traced nc) (rid lb) 60 False) (\<lambda>res.
     if \<not> res then
       let msg = ''Failed in creating pool ('' @ rid pool @ '').'' in
       bind (cleanup (traced nc) msg result) (\<lambda>_. return (res, Msg msg))
     else return (True, Result result)))))))))))) st2 = (Inr (ok, p), st')"
    unfolding lb_create_def Let_def
    by (elim bind_returns) (auto dest!: item_returns simp: Let_def)
  have t1: "snd st1 = snd st @ [Create Loadbalancer (rid lb)]"
    using c1 by (rule traced_call_returns')
  show ?thesis
  proof (cases res1)
    case False
    with k1 obtain u st3 where
      "cleanup (traced nc) (''Failed in creating load balancer ('' @ rid lb @ '').'')
         [''loadbalancer'' \<mapsto> rid lb] st2 = (Inr u, st3)"
      and r: "return (False, Msg (''Failed in creating load balancer ('' @ rid lb @ '').'')) st3 =
         (Inr (ok, p), st')"
      by (auto simp: Let_def elim!: bind_returns)
    then have "changes (snd st3) = changes (snd st2) @ [Delete Loadbalancer (rid lb)]"
      by (auto dest!: cleanup_traced simp: deleted_def)
    with r t1 wait_traced_changes [OF w1] show ?thesis by auto
  next
    case True
    with k1 obtain protocol port admin2 listener st3 res2 st4 where
    c2: "traced_call (listener_create nc (rid lb) protocol port
             (get_default vip ''connection_limit'' JNull) admin2)
           (\<lambda>r. Create Listener (rid r)) st2 = (Inr listener, st3)" and
    w2: "wait_for_lb_ready (traced nc) (rid lb) 60 False st3 = (Inr res2, st4)" and
    k2: "(if \<not> res2 then
       let msg = ''Failed in creating listener ('' @ rid listener @ '').'' in
       bind (cleanup (traced nc) msg [''loadbalancer'' \<mapsto> rid lb, ''listener'' \<mapsto> rid listener])
         (\<lambda>_. return (res2, Msg msg))
     else
     bind (item pool ''lb_method'') (\<lambda>lb_method.
     bind (item pool ''protocol'') (\<lambda>protocol.
     bind (item pool ''admin_state_up'') (\<lambda>admin_state_up.
     bind (pool_create (traced nc) lb_method (rid listener) protocol admin_state_up) (\<lambda>pool.
     let result = [''loadbalancer'' \<mapsto> rid lb, ''listener'' \<mapsto> rid listener, ''pool'' \<mapsto> rid pool] in
     bind (wait_for_lb_ready (traced nc) (rid lb) 60 False) (\<lambda>res.
     if \<not> res then
       let msg = ''Failed in creating pool ('' @ rid pool @ '').'' in
       bind (cleanup (traced nc) msg result) (\<lambda>_. return (res, Msg msg))
     else return (True, Result result))))))) st4 = (Inr (ok, p), st')"
      by (simp add: Let_def) (elim bind_returns, auto dest!: item_returns)
    have t2: "snd st3 = snd st2 @ [Create Listener (rid listener)]"
      using c2 by (rule traced_call_returns')
    from w1 True obtain x1 where x1: "snd st2 = snd st1 @ x1" "polls_of (rid lb) x1"
      by (auto dest!: wait_traced_True)
    show ?thesis
    proof (cases res2)
      case False
      with k2 obtain u st5 where
        "cleanup (traced nc) (''Failed in creating listener ('' @ rid listener @ '').'')
           [''loadbalancer'' \<mapsto> rid lb, ''listener'' \<mapsto> rid listener] st4 = (Inr u, st5)"
        and r: "return (False, Msg (''Failed in creating listener ('' @ rid listener @ '').'')) st5 =
           (Inr (ok, p), st')"
        by (auto simp: Let_def elim!: bind_returns)
      then have "changes (snd st5) = changes (snd st4) @ deleted Listener (Some (rid listener)) @
          [Delete Loadbalancer (rid lb)]"
        by (auto dest!: cleanup_traced simp: deleted_def)
      with r t1 t2 wait_traced_changes [OF w1] wait_traced_changes [OF w2] show ?thesis by auto
    next
      case True
      with k2 obtain lb_method protocol3 admin3 po st5 res3 st6 where
        c3: "traced_call (pool_create nc lb_method (rid listener) protocol3 admin3)
           (\<lambda>r. Create Pool (rid r)) st4 = (Inr po, st5)" and
        w3: "wait_for_lb_ready (traced nc) (rid lb) 60 False st5 = (Inr res3, st6)" and
        k3: "(if \<not> res3 then
           let msg = ''Failed in creating pool ('' @ rid po @ '').'' in
           bind (cleanup (traced nc) msg [''loadbalancer'' \<mapsto> rid lb, ''listener'' \<mapsto> rid listener, ''pool'' \<mapsto> rid po])
             (\<lambda>_. return (res3, Msg msg))
         else return (True, Result [''loadbalancer'' \<mapsto> rid lb, ''listener'' \<mapsto> rid listener, ''pool'' \<mapsto> rid po])) st6
           = (Inr (ok, p), st')"
        by (simp add: Let_def) (elim bind_returns, auto dest!: item_returns)
      have t3: "snd st5 = snd st4 @ [Create Pool (rid po)]"
        using c3 by (rule traced_call_returns')
      from w2 True obtain x2 where x2: "snd st4 = snd st3 @ x2" "polls_of (rid lb) x2"
        by (auto dest!: wait_traced_True)
      show ?thesis
      proof (cases res3)
        case False
        with k3 obtain u st7 where
          "cleanup (traced nc) (''Failed in creating pool ('' @ rid po @ '').'')
             [''loadbalancer'' \<mapsto> rid lb, ''listener'' \<mapsto> rid listener, ''pool'' \<mapsto> rid po] st6 = (Inr u, st7)"
          and r: "return (False, Msg (''Failed in creating pool ('' @ rid po @ '').'')) st7 =
             (Inr (ok, p), st')"
          by (auto simp: Let_def elim!: bind_returns)
        then have "changes (snd st7) = changes (snd st6) @ deleted Pool (Some (rid po)) @
            deleted Listener (Some (rid listener)) @ [Delete Loadbalancer (rid lb)]"
          by (auto dest!: cleanup_traced simp: deleted_def)
        with r t1 t2 t3 wait_traced_changes [OF w1] wait_traced_changes [OF w2]
          wait_traced_changes [OF w3] show ?thesis by auto
      next
        case True
        from w3 True obtain x3 where x3: "snd st6 = snd st5 @ x3" "polls_of (rid lb) x3"
          by (auto dest!: wait_traced_True)
        from k3 True have "ok" "st' = st6"
          "p = Result [''loadbalancer'' \<mapsto> rid lb, ''listener'' \<mapsto> rid listener, ''pool'' \<mapsto> rid po]"
          by auto
        with t1 t2 t3 x1 x2 x3 have "ok \<and>
            p = Result [''loadbalancer'' \<mapsto> rid lb, ''listener'' \<mapsto> rid listener, ''pool'' \<mapsto> rid po] \<and>
            snd st' = snd st @ Create Loadbalancer (rid lb) # x1 @ Create Listener (rid listener) # x2 @
              Create Pool (rid po) # x3 \<and>
            polls_of (rid lb) x1 \<and> polls_of (rid lb) x2 \<and> polls_of (rid lb) x3"
          by simp
        then show ?thesis by blast
      qed
    qed
  qed
qed


lemma lb_create_steps:
  assumes vip: "map_of vip ''subnet'' = Some subnet" "map_of vip ''admin_state_up'' = Some admin"
      "map_of vip ''protocol'' = Some protocol" "map_of vip ''protocol_port'' = Some port"
    and pool: "map_of pool ''lb_method'' = Some lb_method"
      "map_of pool ''protocol'' = Some pool_protocol"
      "map_of pool ''admin_state_up'' = Some pool_admin"
    and 1: "loadbalancer_create nc subnet (get_default vip ''address'' JNull) admin s0 = (Inr lb, s1)"
      "wait_for_lb_ready nc (rid lb) 60 False s1 = (Inr True, s2)"
    and 2: "listener_create nc (rid lb) protocol port (get_default vip ''connection_limit'' JNull)
         admin s2 = (Inr li, s3)"
      "wait_for_lb_ready nc (rid lb) 60 False s3 = (Inr True, s4)"
    and 3: "pool_create nc lb_method (rid li) pool_protocol pool_admin s4 = (Inr po, s5)"
      "wait_for_lb_ready nc (rid lb) 60 False s5 = (Inr True, s6)"
  shows "lb_create nc vip pool s0 =
     (Inr (True, Result [''loadbalancer'' \<mapsto> rid lb, ''listener'' \<mapsto> rid li, ''pool'' \<mapsto> rid po]),
      s6)"
  unfolding lb_create_def Let_def
  by (simp add: bind_def item_def return_def vip pool 1 2 3)

lemma live_changes: "live tr acc = live (changes tr) acc"
proof (induction tr arbitrary: acc)
  case Nil
  show ?case by (simp add: changes_def)
next
  case (Cons ev tr)
  then show ?case by (cases ev) (simp_all add: changes_def)
qed

lemma Create_in_changes: "Create k i \<in> set tr \<Longrightarrow> Create k i \<in> set (changes tr)"
  by (simp add: changes_def)

subsection \<open>Deleting a load balancer that does not exist\<close>

lemma lb_gone_sleep: "lb_gone nc lb_id I \<Longrightarrow> I s \<Longrightarrow> I (sleep nc 2 s)"
  unfolding lb_gone_def by simp

lemma lb_gone_get:
  "lb_gone nc lb_id I \<Longrightarrow> I s \<Longrightarrow> \<exists>s'. loadbalancer_get nc lb_id s = (Inr None, s') \<and> I s'"
  unfolding lb_gone_def by simp

lemma wait_loop_gone:
  "lb_gone nc lb_id I \<Longrightarrow> I s \<Longrightarrow>
   \<exists>s'. wait_loop nc lb_id timeout ign waited s = (Inr (ign \<and> waited < timeout), s') \<and> I s'"
proof (induction nc lb_id timeout ign waited s rule: wait_loop.induct)
  case (1 nc lb_id timeout ign waited s)
  show ?case
  proof (cases "waited < timeout")
    case False
    then show ?thesis using "1.prems"(2) by (subst wait_loop.simps) simp
  next
    case less: True
    from lb_gone_get [OF "1.prems"] obtain s1 where
      g: "loadbalancer_get nc lb_id s = (Inr None, s1)" and s1: "I s1"
      by blast
    show ?thesis
    proof (cases ign)
      case True
      with less g s1 show ?thesis
        by (subst wait_loop.simps) (simp add: lb_is_ready_def)
    next
      case False
      then have nr: "\<not> lb_is_ready ign None" by (simp add: lb_is_ready_def)
      have "I (sleep nc 2 s1)" using "1.prems"(1) s1 by (rule lb_gone_sleep)
      from "1.IH" [OF less g [symmetric] refl nr "1.prems"(1) this]
      obtain s' where r: "wait_loop nc lb_id timeout ign (waited + 2) (sleep nc 2 s1) =
          (Inr (ign \<and> waited + 2 < timeout), s')" and s': "I s'" by blast
      have "wait_loop nc lb_id timeout ign waited s =
            wait_loop nc lb_id timeout ign (waited + 2) (sleep nc 2 s1)"
        using less g nr by (subst wait_loop.simps) simp
      with r s' False show ?thesis by simp
    qed
  qed
qed

lemma wait_gone:
  assumes "lb_gone nc lb_id I" "I s"
  shows "\<exists>s'. wait_for_lb_ready nc lb_id timeout ign s = (Inr (ign \<and> 0 < timeout), s') \<and> I s'"
  using wait_loop_gone [OF assms, of timeout ign 0] unfolding wait_for_lb_ready_def by simp

lemma delete_step_gone:
  assumes "lb_gone nc lb_id I" "I s"
    and del: "\<And>s i. I s \<Longrightarrow> \<exists>s'. del i s = (Inr (), s') \<and> I s'"
  shows "\<exists>s'. if_truthy v (\<lambda>i. bind (del i) (\<lambda>_.
            bind (wait_for_lb_ready nc lb_id 60 False) (\<lambda>_. return ()))) s = (Inr (), s') \<and> I s'"
proof (cases "\<exists>i. v = Some i \<and> i \<noteq> []")
  case False
  with assms(2) show ?thesis
    by (auto simp: if_truthy_def return_def split: option.splits)
next
  case True
  then obtain i where v: "v = Some i" "i \<noteq> []" by blast
  from del [OF assms(2)] obtain s1 where d: "del i s = (Inr (), s1)" "I s1" by blast
  from wait_gone [OF assms(1) d(2), of 60 False] obtain s2 where
    w: "wait_for_lb_ready nc lb_id 60 False s1 = (Inr False, s2)" "I s2" by auto
  with v d show ?thesis by (simp add: if_truthy_def bind_def return_def)
qed

lemma lb_gone_deletes:
  assumes "lb_gone nc lb_id I" "I s"
  shows "\<exists>s'. loadbalancer_delete nc lb_id s = (Inr (), s') \<and> I s'"
    and "\<exists>s'. listener_delete nc i s = (Inr (), s') \<and> I s'"
    and "\<exists>s'. pool_delete nc i s = (Inr (), s') \<and> I s'"
    and "\<exists>s'. healthmonitor_delete nc i s = (Inr (), s') \<and> I s'"
  using assms unfolding lb_gone_def by simp_all

lemma bind_eq: "m s = (Inr a, s') \<Longrightarrow> bind m f s = f a s'"
  by (simp add: bind_def)


lemmas run_simps = lb_create_def lb_delete_def cleanup_def if_truthy_def item_def get_default_def
  bind_def return_def raise_def wait_for_lb_ready_def wait_loop.simps lb_is_ready_def
  traced_def traced_call_def sim_def sim_lb_def sim_delete_def vip0_def pool0_def Let_def

theorem wait_for_lb_ready_terminates_witness:
  "wait_for_lb_ready (sim 4 True) ''lb-1'' 60 False (0, [(Loadbalancer, ''lb-1'')]) =
     (Inr True, (4, [(Loadbalancer, ''lb-1'')])) \<and>
   wait_for_lb_ready (sim 4 True) ''lb-1'' 3 False (0, [(Loadbalancer, ''lb-1'')]) =
     (Inr False, (4, [(Loadbalancer, ''lb-1'')]))"
proof -
  let ?nc = "sim 4 True" and ?s = "(0::int, [(Loadbalancer, ''lb-1'')])"
  have p0: "poll ?nc ''lb-1'' 0 ?s = (Inr (Some (sim_lb 4 0 ''lb-1'')), (0, [(Loadbalancer, ''lb-1'')]))"
    by (simp add: poll_def sim_def)
  have p1: "poll ?nc ''lb-1'' 1 ?s = (Inr (Some (sim_lb 4 2 ''lb-1'')), (2, [(Loadbalancer, ''lb-1'')]))"
    by (simp add: poll_def sim_def)
  have p2: "poll ?nc ''lb-1'' 2 ?s = (Inr (Some (sim_lb 4 4 ''lb-1'')), (4, [(Loadbalancer, ''lb-1'')]))"
    by (simp add: poll_def sim_def numeral_2_eq_2)
  have pend: "\<forall>i < 2. pending False (fst (poll ?nc ''lb-1'' i ?s))"
    using p0 p1 by (simp add: less_2_cases_iff pending_def lb_is_ready_def sim_lb_def)
  have k: "2 < max_polls 60" and m: "max_polls 3 = 2"
    by (simp_all add: max_polls_def)
  have rdy: "lb_is_ready False (Some (sim_lb 4 4 ''lb-1''))"
    by (simp add: lb_is_ready_def sim_lb_def)
  have st: "poll_state ?nc ''lb-1'' 2 ?s = (4, [(Loadbalancer, ''lb-1'')])"
    by (simp add: sim_def numeral_2_eq_2)
  from wait_for_lb_ready_terminates [of 60 False ?nc "''lb-1''" ?s] k pend p2 rdy
  have "wait_for_lb_ready ?nc ''lb-1'' 60 False ?s = (Inr True, (4, [(Loadbalancer, ''lb-1'')]))"
    by blast
  moreover from wait_for_lb_ready_terminates [of 3 False ?nc "''lb-1''" ?s] pend m st
  have "wait_for_lb_ready ?nc ''lb-1'' 3 False ?s = (Inr False, (4, [(Loadbalancer, ''lb-1'')]))"
    by simp
  ultimately show ?thesis by simp
qed

subsection \<open>Rollback of a failed creation\<close>

text \<open>
  Whenever \<open>lb_create\<close> returns a failure, the wait after one of its three steps
  has timed out, and before returning the call has deleted everything it had created,
  the resource of the failed step included, in the reverse order of creation: pool,
  then listener, then load balancer. The trace of the call then leaves no resource
  behind. The driver skips the deletion of a listener or pool whose id is the empty
  string, so the ids handed out by the backend are taken to be non-empty.
\<close>

lemma lb_create_failure_trace:
  assumes "lb_create (traced nc) vip pool (s, []) = (Inr (False, p), (s', tr))"
    and "\<forall>k i. Create k i \<in> set tr \<longrightarrow> i \<noteq> []"
  shows "((\<exists>lb. p = Msg (''Failed in creating load balancer ('' @ lb @ '').'') \<and>
            changes tr = [Create Loadbalancer lb, Delete Loadbalancer lb])
        \<or> (\<exists>lb li. p = Msg (''Failed in creating listener ('' @ li @ '').'') \<and>
            changes tr = [Create Loadbalancer lb, Create Listener li,
                          Delete Listener li, Delete Loadbalancer lb])
        \<or> (\<exists>lb li po. p = Msg (''Failed in creating pool ('' @ po @ '').'') \<and>
            changes tr = [Create Loadbalancer lb, Create Listener li, Create Pool po,
                          Delete Pool po, Delete Listener li, Delete Loadbalancer lb]))
       \<and> live tr [] = []"
proof -
  have ne: "i \<noteq> []" if "Create k i \<in> set (changes tr)" for k i
    using that assms(2) by (simp add: changes_def)
  from lb_create_traced [OF assms(1)] consider
    (lb) lb where "p = Msg (''Failed in creating load balancer ('' @ lb @ '').'')"
      "changes tr = [Create Loadbalancer lb, Delete Loadbalancer lb]"
  | (listener) lb li where "p = Msg (''Failed in creating listener ('' @ li @ '').'')"
      "changes tr = [Create Loadbalancer lb, Create Listener li] @
         deleted Listener (Some li) @ [Delete Loadbalancer lb]"
  | (pool) lb li po where "p = Msg (''Failed in creating pool ('' @ po @ '').'')"
      "changes tr = [Create Loadbalancer lb, Create Listener li, Create Pool po] @
         deleted Pool (Some po) @ deleted Listener (Some li) @ [Delete Loadbalancer lb]"
    by auto
  then show ?thesis
  proof cases
    case lb
    then show ?thesis by (simp add: live_changes [of tr])
  next
    case listener
    from ne [of Listener li] listener(2) have "li \<noteq> []" by simp
    with listener have c: "changes tr = [Create Loadbalancer lb, Create Listener li,
        Delete Listener li, Delete Loadbalancer lb]"
      by (simp add: deleted_def)
    have "live tr [] = []" by (simp add: live_changes [of tr] c)
    with listener(1) c show ?thesis by blast
  next
    case pool
    from ne [of Listener li] pool(2) have "li \<noteq> []" by simp
    moreover from ne [of Pool po] pool(2) have "po \<noteq> []" by simp
    ultimately have c: "changes tr = [Create Loadbalancer lb, Create Listener li, Create Pool po,
        Delete Pool po, Delete Listener li, Delete Loadbalancer lb]"
      using pool by (simp add: deleted_def)
    have "live tr [] = []" by (simp add: live_changes [of tr] c)
    with pool(1) c show ?thesis by blast
  qed
qed

text \<open>
  On the backend where the load balancer stays busy while the pool exists, and every
  deletion returns, the third step times out and the rollback deletes the pool, the
  listener and the load balancer, in this order.
\<close>

lemma lb_create_rollback_third_step:
  "fst (lb_create (traced (sim_kinds [Pool] [])) vip0 pool0 ((0, []), [])) =
     Inr (False, Msg ''Failed in creating pool (pool-1).'') \<and>
   changes (snd (snd (lb_create (traced (sim_kinds [Pool] [])) vip0 pool0 ((0, []), [])))) =
     [Create Loadbalancer ''lb-1'', Create Listener ''listener-1'', Create Pool ''pool-1'',
      Delete Pool ''pool-1'', Delete Listener ''listener-1'', Delete Loadbalancer ''lb-1''] \<and>
   fst (snd (lb_create (traced (sim_kinds [Pool] [])) vip0 pool0 ((0, []), []))) = (62, [])"
  by (simp add: run_simps changes_def sim_kinds_def sim_kinds_lb_def sim_kinds_delete_def)

text \<open>
  C1. A step of \<open>lb_create\<close> that fails to become ready does not always end with
  everything deleted and a failure result. The rollback is the unguarded call of
  \<open>lb_delete\<close>, which stops at the first deletion that raises. On the backend where
  the load balancer stays busy while the pool exists and the deletion of a listener
  raises, the third step times out after 60 seconds, the rollback deletes the pool,
  and the exception of \<open>listener_delete\<close> leaves \<open>lb_create\<close>: no failure result is
  returned, and the listener and the load balancer are still there.
\<close>

theorem lb_create_rollback_incomplete:
  "lb_create (sim_kinds [Pool] [Listener]) vip0 pool0 (0, []) =
     (Inl (Failure ''backend unavailable''),
      (60, [(Loadbalancer, ''lb-1''), (Listener, ''listener-1'')])) \<and>
   changes (snd (snd (lb_create (traced (sim_kinds [Pool] [Listener])) vip0 pool0 ((0, []), [])))) =
     [Create Loadbalancer ''lb-1'', Create Listener ''listener-1'', Create Pool ''pool-1'',
      Delete Pool ''pool-1'']"
  by (simp add: run_simps changes_def sim_kinds_def sim_kinds_lb_def sim_kinds_delete_def)

subsection \<open>Successful creation\<close>

text \<open>
  C5. When \<open>lb_create\<close> returns success it has created the load balancer, then the
  listener, then the pool, in this order; after each creation and before the next one
  it has polled the load balancer until a poll found it ready; and the result maps
  \<open>loadbalancer\<close>, \<open>listener\<close> and \<open>pool\<close> to the ids of the three objects created.
  Conversely, when the properties it reads are present and each of the three
  creations returns and is followed by a wait that returns \<open>True\<close>, each step
  starting in the state the previous one left, \<open>lb_create\<close> returns success with
  these three ids.
\<close>

theorem lb_create_success:
  "(lb_create (traced nc) vip pool (s, []) = (Inr (True, p), (s', tr)) \<longrightarrow>
     (\<exists>lb li po w1 w2 w3.
        p = Result [''loadbalancer'' \<mapsto> lb, ''listener'' \<mapsto> li, ''pool'' \<mapsto> po] \<and>
        tr = Create Loadbalancer lb # w1 @ Create Listener li # w2 @ Create Pool po # w3 \<and>
        polls_of lb w1 \<and> polls_of lb w2 \<and> polls_of lb w3)) \<and>
   (map_of vip ''subnet'' = Some subnet \<and> map_of vip ''admin_state_up'' = Some admin \<and>
    map_of vip ''protocol'' = Some protocol \<and> map_of vip ''protocol_port'' = Some port \<and>
    map_of pool ''lb_method'' = Some lb_method \<and>
    map_of pool ''protocol'' = Some pool_protocol \<and>
    map_of pool ''admin_state_up'' = Some pool_admin \<and>
    loadbalancer_create nc' subnet (get_default vip ''address'' JNull) admin s0 = (Inr lb, s1) \<and>
    wait_for_lb_ready nc' (rid lb) 60 False s1 = (Inr True, s2) \<and>
    listener_create nc' (rid lb) protocol port (get_default vip ''connection_limit'' JNull)
      admin s2 = (Inr li, s3) \<and>
    wait_for_lb_ready nc' (rid lb) 60 False s3 = (Inr True, s4) \<and>
    pool_create nc' lb_method (rid li) pool_protocol pool_admin s4 = (Inr po, s5) \<and>
    wait_for_lb_ready nc' (rid lb) 60 False s5 = (Inr True, s6) \<longrightarrow>
    lb_create nc' vip pool s0 =
      (Inr (True, Result [''loadbalancer'' \<mapsto> rid lb, ''listener'' \<mapsto> rid li,
                          ''pool'' \<mapsto> rid po]), s6))"
proof (intro conjI impI)
  assume "lb_create (traced nc) vip pool (s, []) = (Inr (True, p), (s', tr))"
  from lb_create_traced [OF this]
  show "\<exists>lb li po w1 w2 w3.
        p = Result [''loadbalancer'' \<mapsto> lb, ''listener'' \<mapsto> li, ''pool'' \<mapsto> po] \<and>
        tr = Create Loadbalancer lb # w1 @ Create Listener li # w2 @ Create Pool po # w3 \<and>
        polls_of lb w1 \<and> polls_of lb w2 \<and> polls_of lb w3"
    by auto
next
  assume "map_of vip ''subnet'' = Some subnet \<and> map_of vip ''admin_state_up'' = Some admin \<and>
    map_of vip ''protocol'' = Some protocol \<and> map_of vip ''protocol_port'' = Some port \<and>
    map_of pool ''lb_method'' = Some lb_method \<and>
    map_of pool ''protocol'' = Some pool_protocol \<and>
    map_of pool ''admin_state_up'' = Some pool_admin \<and>
    loadbalancer_create nc' subnet (get_default vip ''address'' JNull) admin s0 = (Inr lb, s1) \<and>
    wait_for_lb_ready nc' (rid lb) 60 False s1 = (Inr True, s2) \<and>
    listener_create nc' (rid lb) protocol port (get_default vip ''connection_limit'' JNull)
      admin s2 = (Inr li, s3) \<and>
    wait_for_lb_ready nc' (rid lb) 60 False s3 = (Inr True, s4) \<and>
    pool_create nc' lb_method (rid li) pool_protocol pool_admin s4 = (Inr po, s5) \<and>
    wait_for_lb_ready nc' (rid lb) 60 False s5 = (Inr True, s6)"
  then show "lb_create nc' vip pool s0 =
      (Inr (True, Result [''loadbalancer'' \<mapsto> rid lb, ''listener'' \<mapsto> rid li,
                          ''pool'' \<mapsto> rid po]), s6)"
    by (elim conjE) (rule lb_create_steps)
qed

theorem lb_create_success_witness:
  "(\<exists>lb li po w1 w2 w3.
     Result [''loadbalancer'' \<mapsto> ''lb-1'', ''listener'' \<mapsto> ''listener-1'', ''pool'' \<mapsto> ''pool-1''] =
       Result [''loadbalancer'' \<mapsto> lb, ''listener'' \<mapsto> li, ''pool'' \<mapsto> po] \<and>
     [Create Loadbalancer ''lb-1'', Get ''lb-1'', Create Listener ''listener-1'', Get ''lb-1'',
      Create Pool ''pool-1'', Get ''lb-1''] =
       Create Loadbalancer lb # w1 @ Create Listener li # w2 @ Create Pool po # w3 \<and>
     polls_of lb w1 \<and> polls_of lb w2 \<and> polls_of lb w3) \<and>
   lb_create (sim 0 True) vip0 pool0 (0, []) =
     (Inr (True, Result [''loadbalancer'' \<mapsto> rid (sim_lb 0 0 ''lb-1''),
                         ''listener'' \<mapsto> rid (sim_lb 0 0 ''listener-1''),
                         ''pool'' \<mapsto> rid (sim_lb 0 0 ''pool-1'')]),
      (0, [(Loadbalancer, ''lb-1''), (Listener, ''listener-1''), (Pool, ''pool-1'')]))"
proof -
  have run: "lb_create (traced (sim 0 True)) vip0 pool0 ((0, []), []) =
    (Inr (True, Result [''loadbalancer'' \<mapsto> ''lb-1'', ''listener'' \<mapsto> ''listener-1'',
                        ''pool'' \<mapsto> ''pool-1'']),
     ((0, [(Loadbalancer, ''lb-1''), (Listener, ''listener-1''), (Pool, ''pool-1'')]),
      [Create Loadbalancer ''lb-1'', Get ''lb-1'', Create Listener ''listener-1'', Get ''lb-1'',
       Create Pool ''pool-1'', Get ''lb-1'']))"
    by (simp add: run_simps)
  note shape = lb_create_success [THEN conjunct1, THEN mp, OF run]
  let ?s1 = "(0::int, [(Loadbalancer, ''lb-1'')])"
  let ?s2 = "(0::int, [(Loadbalancer, ''lb-1''), (Listener, ''listener-1'')])"
  let ?s3 = "(0::int, [(Loadbalancer, ''lb-1''), (Listener, ''listener-1''), (Pool, ''pool-1'')])"
  have steps: "map_of vip0 ''subnet'' = Some (JStr ''subnet-1'') \<and>
    map_of vip0 ''admin_state_up'' = Some (JBool True) \<and>
    map_of vip0 ''protocol'' = Some (JStr ''HTTP'') \<and>
    map_of vip0 ''protocol_port'' = Some (JInt 80) \<and>
    map_of pool0 ''lb_method'' = Some (JStr ''ROUND_ROBIN'') \<and>
    map_of pool0 ''protocol'' = Some (JStr ''HTTP'') \<and>
    map_of pool0 ''admin_state_up'' = Some (JBool True) \<and>
    loadbalancer_create (sim 0 True) (JStr ''subnet-1'') (get_default vip0 ''address'' JNull)
      (JBool True) (0, []) = (Inr (sim_lb 0 0 ''lb-1''), ?s1) \<and>
    wait_for_lb_ready (sim 0 True) (rid (sim_lb 0 0 ''lb-1'')) 60 False ?s1 = (Inr True, ?s1) \<and>
    listener_create (sim 0 True) (rid (sim_lb 0 0 ''lb-1'')) (JStr ''HTTP'') (JInt 80)
      (get_default vip0 ''connection_limit'' JNull) (JBool True) ?s1 =
      (Inr (sim_lb 0 0 ''listener-1''), ?s2) \<and>
    wait_for_lb_ready (sim 0 True) (rid (sim_lb 0 0 ''lb-1'')) 60 False ?s2 = (Inr True, ?s2) \<and>
    pool_create (sim 0 True) (JStr ''ROUND_ROBIN'') (rid (sim_lb 0 0 ''listener-1''))
      (JStr ''HTTP'') (JBool True) ?s2 = (Inr (sim_lb 0 0 ''pool-1''), ?s3) \<and>
    wait_for_lb_ready (sim 0 True) (rid (sim_lb 0 0 ''lb-1'')) 60 False ?s3 = (Inr True, ?s3)"
    by (simp add: run_simps)
  note forward = lb_create_success [THEN conjunct2, THEN mp, OF steps]
  show ?thesis by (rule conjI [OF shape forward])
qed

subsection \<open>Idempotent deletion\<close>

text \<open>
  In a backend where the load balancer \<open>lb_id\<close> does not exist (and whose client,
  as Neutron's does, returns from the deletion of a missing resource without raising),
  \<open>lb_delete\<close> returns \<open>(True, 'LB deletion succeeded')\<close>, whatever other ids it was
  given.
\<close>

lemma lb_delete_absent_returns:
  assumes gone: "lb_gone nc lb_id I" and s: "I s" and k: "kwargs ''loadbalancer'' = Some lb_id"
  shows "\<exists>s'. lb_delete nc kwargs s = (Inr (True, ''LB deletion succeeded''), s') \<and> I s'"
proof -
  from delete_step_gone [where del = "healthmonitor_delete nc" and v = "kwargs ''healthmonitor''",
      OF gone s lb_gone_deletes(4) [OF gone]]
  obtain s1 where
    1: "if_truthy (kwargs ''healthmonitor'') (\<lambda>i. bind (healthmonitor_delete nc i) (\<lambda>_.
            bind (wait_for_lb_ready nc lb_id 60 False) (\<lambda>_. return ()))) s = (Inr (), s1)"
    and i1: "I s1"
    by blast
  from delete_step_gone [where del = "pool_delete nc" and v = "kwargs ''pool''",
      OF gone i1 lb_gone_deletes(3) [OF gone]]
  obtain s2 where
    2: "if_truthy (kwargs ''pool'') (\<lambda>i. bind (pool_delete nc i) (\<lambda>_.
            bind (wait_for_lb_ready nc lb_id 60 False) (\<lambda>_. return ()))) s1 = (Inr (), s2)"
    and i2: "I s2"
    by blast
  from delete_step_gone [where del = "listener_delete nc" and v = "kwargs ''listener''",
      OF gone i2 lb_gone_deletes(2) [OF gone]]
  obtain s3 where
    3: "if_truthy (kwargs ''listener'') (\<lambda>i. bind (listener_delete nc i) (\<lambda>_.
            bind (wait_for_lb_ready nc lb_id 60 False) (\<lambda>_. return ()))) s2 = (Inr (), s3)"
    and i3: "I s3"
    by blast
  from lb_gone_deletes(1) [OF gone i3] obtain s4 where
    4: "loadbalancer_delete nc lb_id s3 = (Inr (), s4)" and i4: "I s4"
    by blast
  from wait_gone [OF gone i4, of 1 False] obtain s5 where
    5: "wait_for_lb_ready nc lb_id 1 False s4 = (Inr False, s5)" and i5: "I s5" by auto
  have "lb_delete nc kwargs s = (Inr (True, ''LB deletion succeeded''), s5)"
    unfolding lb_delete_def using k
    by (simp add: bind_def 1 2 3 4 5 return_def)
  with i5 show ?thesis by blast
qed

text \<open>
  C2. \<open>lb_delete\<close> called for a load balancer that does not exist returns
  \<open>(True, 'LB deletion succeeded')\<close>, but its final wait does not take the missing load
  balancer as ready. The call \<open>_wait_for_lb_ready(lb_id, True)\<close> gives \<open>True\<close> to the
  parameter \<open>timeout\<close> and leaves \<open>ignore_not_found\<close> at \<open>False\<close>. So the wait polls
  once, finds nothing, sleeps its two seconds and gives up with \<open>False\<close>, which
  \<open>lb_delete\<close> ignores: the trace of the call ends with the poll followed by the
  sleep, and the clock has moved on by two seconds. A wait that accepted the missing
  load balancer would have returned at the poll, without sleeping.
\<close>

theorem lb_delete_final_wait_absent:
  "lb_delete (traced (sim 0 True)) [''loadbalancer'' \<mapsto> ''lb-9''] ((0, []), []) =
     (Inr (True, ''LB deletion succeeded''),
      ((2, []), [Delete Loadbalancer ''lb-9'', Get ''lb-9'', Sleep 2]))"
  by (simp add: run_simps)

subsection \<open>A rollback that fails\<close>

text \<open>
  C3. \<open>lb_create\<close> calls \<open>lb_delete\<close> from its cleanup helper without guarding it, so an
  exception raised by a deletion leaves \<open>lb_create\<close> as an exception and not as a
  \<open>(False, message)\<close> pair. On the simulated backend whose load balancer never gets
  ready and whose deletions raise, the call ends after the first wait of 60 seconds
  with the backend's exception, and the load balancer it created is still there.
\<close>

theorem lb_create_cleanup_raises:
  "lb_create (sim 1000 False) vip0 pool0 (0, []) =
     (Inl (Failure ''backend unavailable''), (60, [(Loadbalancer, ''lb-1'')]))"
  by (simp add: run_simps)


section \<open>Properties of the cluster controller\<close>

lemma traced_rpc_simp:
  "traced_rpc rpc c (s, tr) = (case rpc c s of (r, s') \<Rightarrow> (r, (s', tr @ [(c, r)])))"
  by (simp add: traced_rpc_def)

lemma raise_result [simp]:
  "raise e s = (Inl e', s') \<longleftrightarrow> e' = e \<and> s' = s"
  "raise e s \<noteq> (Inr a, s')"
  "fst (raise e s) = Inl e" "snd (raise e s) = s"
  by (auto simp: raise_def)

lemma return_result [simp]:
  "return a s \<noteq> (Inl e, s')"
  "fst (return a s) = Inr a" "snd (return a s) = s"
  by (auto simp: return_def)

lemma bind_raise [simp]: "bind (raise e) f = raise e"
  by (rule ext) (simp add: bind_def raise_def)

lemma bind_return [simp]: "bind (return a) f = f a"
  by (rule ext) (simp add: bind_def return_def)

lemma pureD: "pure m \<Longrightarrow> m s = (r, s') \<Longrightarrow> s' = s"
  unfolding pure_def by (metis snd_conv)

lemma pure_return [simp]: "pure (return a)"
  by (simp add: pure_def return_def)

lemma pure_raise [simp]: "pure (raise e)"
  by (simp add: pure_def raise_def)

lemma pure_lift [simp]: "pure (lift r)"
  by (simp add: pure_def lift_def)

lemma pure_bind [simp]: "pure m \<Longrightarrow> (\<And>a. pure (f a)) \<Longrightarrow> pure (bind m f)"
  unfolding pure_def bind_def
  by (auto split: prod.splits sum.splits) (metis snd_conv)+

lemma pure_try_except [simp]:
  "pure m \<Longrightarrow> (\<And>e k. h e = Some k \<Longrightarrow> pure k) \<Longrightarrow> pure (try_except m h)"
  unfolding pure_def try_except_def
  by (auto split: prod.splits sum.splits option.splits) (metis snd_conv)+

lemma pure_if [simp]: "pure a \<Longrightarrow> pure b \<Longrightarrow> pure (if c then a else b)"
  by simp

lemma pure_py [simp]:
  "pure (py_get v k d)" "pure (py_item v k)" "pure (py_attr v k)" "pure (py_setitem v k x)"
  "pure (py_update v k x)" "pure (py_pop v k)" "pure (py_len v)"
  by (cases v; simp split: option.splits; fail)+

lemma pure_first_key [simp]: "pure (first_key v)"
  by (cases v rule: first_key.cases) simp_all

lemma pure_len_set [simp]: "pure (len_set xs)"
  by (simp add: len_set_def)

lemma pure_check_nodes [simp]: "pure (check_nodes items)"
  by (induction items) auto

lemma pure_parse_opt [simp]: "pure (parse_opt env name v neg)"
  by (simp add: parse_opt_def)

lemma pure_sanitize_policy [simp]: "pure (sanitize_policy env data)"
  unfolding sanitize_policy_def
  by (cases data) (auto intro!: pure_bind pure_try_except split: option.splits exn.splits)

lemma pure_with_location [simp]: "pure (with_location env res)"
  by (simp add: with_location_def)

lemma with_location_returns:
  assumes "with_location env res st = (Inr out, st')"
  shows "st' = st \<and> (\<exists>reply aid r. res = JDict reply \<and> map_of reply ''action'' = Some aid \<and>
            out = JDict r \<and> map_of r ''location'' = Some (location_of env aid))"
proof (cases res)
  case (JDict reply)
  with assms show ?thesis
    by (auto simp: with_location_def bind_def return_def raise_def update_conv' split: option.splits)
qed (use assms in \<open>simp_all add: with_location_def\<close>)

lemma traced_rpc_returns:
  assumes "traced_rpc rpc c st = (Inr r, st')"
  shows "snd st' = snd st @ [(c, Inr r)]"
  using assms by (cases st) (auto simp: traced_rpc_def split: prod.splits)

lemma locatedI:
  "tr = [(c, Inr (JDict reply))] \<Longrightarrow> map_of reply ''action'' = Some aid \<Longrightarrow>
   map_of r ''location'' = Some (location_of env aid) \<Longrightarrow> located env (JDict r) tr"
  by (simp add: located_def location_of_def percent_s_def)

lemma locatedD:
  assumes "located env res tr"
  shows "\<exists>c reply action_id r.
           tr = [(c, Inr (JDict reply))] \<and> map_of reply ''action'' = Some action_id \<and>
           res = JDict r \<and>
           map_of r ''location'' =
             Some (JStr (''/actions/'' @
               (case action_id of JStr a \<Rightarrow> a | _ \<Rightarrow> py_str env action_id)))"
proof -
  obtain c reply where tr: "tr = [(c, Inr (JDict reply))]"
  proof (cases tr)
    case Nil
    with assms show ?thesis by (simp add: located_def)
  next
    case (Cons p rest)
    obtain c x where p: "p = (c, x)" by (cases p)
    show ?thesis
    proof (cases rest)
      case Nil
      show ?thesis
      proof (cases x)
        case (Inl e)
        with assms Cons p Nil show ?thesis by (simp add: located_def)
      next
        case (Inr j)
        with assms Cons p Nil show ?thesis by (cases j) (simp_all add: located_def that)
      qed
    next
      case (Cons q rest')
      with assms \<open>tr = p # rest\<close> p show ?thesis
        by (simp add: located_def split: sum.splits json.splits)
    qed
  qed
  from assms tr obtain action_id where a: "map_of reply ''action'' = Some action_id"
    by (cases "map_of reply ''action''") (simp_all add: located_def)
  from assms tr a obtain r where "res = JDict r"
    "map_of r ''location'' =
       Some (JStr (''/actions/'' @
         (case action_id of JStr a \<Rightarrow> a | _ \<Rightarrow> py_str env action_id)))"
    by (cases res) (simp_all add: located_def)
  with tr a show ?thesis by blast
qed

text \<open>The tail shared by all branches: one RPC call, then the location is added.\<close>

lemma rpc_with_location:
  assumes "bind (traced_rpc rpc c) (with_location env) (s, []) = (Inr res, (s', tr))"
  shows "located env res tr"
proof -
  from assms obtain reply st1 where
    c: "traced_rpc rpc c (s, []) = (Inr reply, st1)" and
    w: "with_location env reply st1 = (Inr res, (s', tr))"
    by (rule bind_returns)
  from traced_rpc_returns [OF c] have t: "snd st1 = [(c, Inr reply)]" by simp
  from with_location_returns [OF w] t show ?thesis
    by (auto intro: locatedI)
qed

lemma bind_pure:
  "pure m \<Longrightarrow> bind m f st = (case fst (m st) of Inl e \<Rightarrow> (Inl e, st) | Inr a \<Rightarrow> f a st)"
  unfolding bind_def by (cases "m st") (auto dest: pureD split: sum.splits)

lemma with_location_fold:
  "(\<lambda>res. bind (py_item res ''action'') (\<lambda>action_id.
      py_update res ''location'' (location_of env action_id))) = with_location env"
  by (rule ext) (simp add: with_location_def)

lemma pure_validation [simp]:
  "pure (try_except (bind (lift a) (\<lambda>obj. bind (lift (b obj)) (\<lambda>_. return obj)))
           (except_ValueError_ValidationError env))"
  "pure (try_except (bind (lift n) (\<lambda>norm_req. bind (lift (a2 norm_req)) (\<lambda>obj.
            bind (lift (b2 norm_req obj)) (\<lambda>_. return obj))))
           (except_ValueError env))"
  by (auto intro!: pure_try_except pure_bind
      simp: except_ValueError_ValidationError_def except_ValueError_def split: exn.splits)

lemma do_resize_located:
  assumes "do_resize (traced_rpc rpc) env req cluster_id this_action body (s, []) = (Inr res, (s', tr))"
  shows "located env res tr"
  using assms unfolding do_resize_def with_location_fold
  by (auto simp: bind_pure split: sum.splits if_splits option.splits dest!: rpc_with_location)

lemma replace_nodes_located:
  assumes "replace_nodes (traced_rpc rpc) env req cluster_id this_action body (s, []) = (Inr res, (s', tr))"
  shows "located env res tr"
  using assms unfolding replace_nodes_def with_location_fold
  by (auto simp: bind_pure split: sum.splits if_splits json.splits dest!: rpc_with_location)

lemma bind_assoc: "bind (bind m f) g = bind m (\<lambda>a. bind (f a) g)"
  by (rule ext) (auto simp: bind_def split: prod.splits sum.splits)

lemma add_nodes_located:
  assumes "bind (add_nodes (traced_rpc rpc) env ctx cid nodes) (with_location env) (s, []) =
             (Inr res, (s', tr))"
  shows "located env res tr"
  using assms unfolding add_nodes_def Let_def bind_assoc
  by (auto simp: bind_pure split: sum.splits dest!: rpc_with_location)

lemma del_nodes_located:
  assumes "bind (del_nodes (traced_rpc rpc) env ctx cid nodes) (with_location env) (s, []) =
             (Inr res, (s', tr))"
  shows "located env res tr"
  using assms unfolding del_nodes_def Let_def bind_assoc
  by (auto simp: bind_pure split: sum.splits dest!: rpc_with_location)

lemma action_located:
  assumes "action (traced_rpc rpc) env req cluster_id body (s, []) = (Inr res, (s', tr))"
  shows "located env res tr"
  using assms unfolding action_def Let_def
  by (auto simp: bind_pure split: sum.splits if_splits
      dest!: rpc_with_location add_nodes_located del_nodes_located do_resize_located
        replace_nodes_located)

lemma pop_located:
  assumes run: "bind (traced_rpc rpc c) (\<lambda>reply. bind (py_pop reply ''action'') k) (s, []) =
           (Inr res, (s', tr))"
    and k: "\<And>a rest st. k (a, rest) st = (Inr (JDict (g a rest)), st)"
    and g: "\<And>a rest. map_of (g a rest) ''location'' = Some (location_of env a)"
  shows "located env res tr"
proof -
  from run obtain reply st1 where
    c: "traced_rpc rpc c (s, []) = (Inr reply, st1)" and
    w: "bind (py_pop reply ''action'') k st1 = (Inr res, (s', tr))"
    by (rule bind_returns)
  from traced_rpc_returns [OF c] have t: "snd st1 = [(c, Inr reply)]" by simp
  show ?thesis
  proof (cases reply)
    case (JDict d)
    show ?thesis
    proof (cases "map_of d ''action''")
      case None
      with w JDict show ?thesis by (simp add: bind_pure)
    next
      case (Some a)
      with w JDict have "k (a, JDict (AList.delete ''action'' d)) st1 = (Inr res, (s', tr))"
        by (simp add: bind_pure return_def)
      with k have "res = JDict (g a (JDict (AList.delete ''action'' d)))" "st1 = (s', tr)"
        by simp_all
      with t JDict Some g show ?thesis by (simp add: located_def location_of_def percent_s_def)
    qed
  qed (use w in \<open>simp_all add: bind_pure\<close>)
qed

lemma create_located:
  assumes "create (traced_rpc rpc) env req body (s, []) = (Inr res, (s', tr))"
  shows "located env res tr"
proof -
  from assms obtain c where "bind (traced_rpc rpc c) (\<lambda>reply. bind (py_pop reply ''action'')
      (\<lambda>(action_id, cluster).
         return (JDict [(''cluster'', cluster), (''location'', location_of env action_id)])))
      (s, []) = (Inr res, (s', tr))"
    unfolding create_def by (auto simp: bind_pure split: sum.splits)
  then show ?thesis
    by (rule pop_located [where g = "\<lambda>a rest. [(''cluster'', rest), (''location'', location_of env a)]"])
       (simp_all add: return_def)
qed

lemma update_located:
  assumes "update (traced_rpc rpc) env req cluster_id body (s, []) = (Inr res, (s', tr))"
  shows "located env res tr"
proof -
  from assms obtain c where "bind (traced_rpc rpc c) (\<lambda>reply. bind (py_pop reply ''action'')
      (\<lambda>(action_id, cluster).
         return (JDict [(''cluster'', cluster), (''location'', location_of env action_id)])))
      (s, []) = (Inr res, (s', tr))"
    unfolding update_def by (auto simp: bind_pure split: sum.splits if_splits)
  then show ?thesis
    by (rule pop_located [where g = "\<lambda>a rest. [(''cluster'', rest), (''location'', location_of env a)]"])
       (simp_all add: return_def)
qed

lemma delete_located:
  assumes "delete (traced_rpc rpc) env req cluster_id (s, []) = (Inr res, (s', tr))"
  shows "located env res tr"
  using assms unfolding delete_def
  by (rule pop_located [where g = "\<lambda>a rest. [(''location'', location_of env a)]"])
     (simp_all add: return_def)

lemmas ctl_simps = action_def do_resize_def replace_nodes_def create_def update_def delete_def
  add_nodes_def del_nodes_def sanitize_policy_def with_location_def parse_opt_def
  len_set_def try_except_def except_ValueError_def except_ValueError_ValidationError_def
  in_ADJUSTMENT_TYPES_def location_of_def percent_s_def SUPPORTED_ACTIONS_def
  bind_def return_def raise_def lift_def traced_rpc_def env0_def rpc0_def req0_def Let_def

lemma check_nodes_rejects:
  "(k, v) \<in> set m \<Longrightarrow> k = [] \<or> \<not> truthy v \<Longrightarrow>
   \<exists>msg. check_nodes m st = (Inl (HTTPBadRequest msg), st)"
  by (induction m) auto

lemma duplicate_values:
  assumes "k1 \<noteq> k2" "(k1, v) \<in> set m" "(k2, v) \<in> set m"
  shows "length (remdups (map set_key (map snd m))) \<noteq> length m"
proof -
  have "\<not> distinct (map snd m)"
  proof
    assume d: "distinct (map snd m)"
    from assms(2,3) obtain i j where
      ij: "i < length m" "m ! i = (k1, v)" "j < length m" "m ! j = (k2, v)"
      by (metis in_set_conv_nth)
    with assms(1) have "i \<noteq> j" by auto
    moreover have "map snd m ! i = map snd m ! j" using ij by simp
    moreover have "i < length (map snd m)" "j < length (map snd m)" using ij by simp_all
    ultimately show False using d nth_eq_iff_index_eq by blast
  qed
  then have "\<not> distinct (map set_key (map snd m))"
    using distinct_map by blast
  then show ?thesis
    by (metis length_map length_remdups_eq remdups_id_iff_distinct)
qed

lemma replace_nodes_missing:
  assumes "map_of data ''nodes'' = None \<or> (\<exists>v. map_of data ''nodes'' = Some v \<and> \<not> is_dict v)"
  shows "\<exists>msg. replace_nodes rpc env req cluster_id ''replace_nodes''
           (JDict [(''replace_nodes'', JDict data)]) st = (Inl (HTTPBadRequest msg), st)"
  using assms by (auto simp: replace_nodes_def)

lemma replace_nodes_duplicates:
  assumes "map_of data ''nodes'' = Some (JDict m)" "\<forall>v \<in> snd ` set m. hashable v"
    "k1 \<noteq> k2" "(k1, v) \<in> set m" "(k2, v) \<in> set m"
  shows "\<exists>msg. replace_nodes rpc env req cluster_id ''replace_nodes''
           (JDict [(''replace_nodes'', JDict data)]) st = (Inl (HTTPBadRequest msg), st)"
  using assms(1,2) duplicate_values [OF assms(3-5)]
  by (cases "m = []") (auto simp: replace_nodes_def len_set_def)

lemma replace_nodes_empty_id:
  assumes "map_of data ''nodes'' = Some (JDict m)" "\<forall>v \<in> snd ` set m. hashable v"
    "(k, v) \<in> set m" "k = [] \<or> \<not> truthy v"
  shows "\<exists>msg. replace_nodes rpc env req cluster_id ''replace_nodes''
           (JDict [(''replace_nodes'', JDict data)]) st = (Inl (HTTPBadRequest msg), st)"
proof -
  from assms(3) have "m \<noteq> []" by auto
  with assms(1,2) check_nodes_rejects [OF assms(3,4), of st] show ?thesis
    by (auto simp: replace_nodes_def len_set_def bind_def)
qed

lemma action_resize:
  "action rpc env req cluster_id (JDict [(''resize'', JDict data)]) =
   do_resize rpc env req cluster_id ''resize'' (JDict [(''resize'', JDict data)])"
  by (simp add: action_def SUPPORTED_ACTIONS_def)

lemma py_get_dict: "py_get (JDict d) k dflt = return (get_default d k dflt)"
  by (simp add: get_default_def)

lemma get_default_hd: "get_default ((k, v) # d) k dflt = v"
  by (simp add: get_default_def)

lemma do_resize_split:
  "do_resize rpc env req cluster_id ''resize'' (JDict [(''resize'', JDict data)]) =
   bind (resize_call env req cluster_id data) (\<lambda>c. bind (rpc c) (with_location env))"
  unfolding do_resize_def resize_call_def with_location_fold Let_def
  by (simp add: py_get_dict get_default_hd bind_assoc del: py_get.simps)

lemma lift_simps [simp]: "lift (Inr a) = return a" "lift (Inl e) = raise e"
  by (rule ext; simp add: lift_def return_def raise_def)+

lemma pure_resize_call [simp]: "pure (resize_call env req cluster_id data)"
  unfolding resize_call_def Let_def
  by (intro pure_bind pure_if pure_raise pure_return pure_parse_opt pure_lift)
     (simp_all split: option.splits)

lemma fails_bind:
  "pure m \<Longrightarrow> (\<And>a. \<exists>e. f a st = (Inl e, st)) \<Longrightarrow> \<exists>e. bind m f st = (Inl e, st)"
  by (simp add: bind_pure split: sum.splits)

lemma resize_call_no_number:
  assumes "get_default data (ADJUSTMENT_TYPE env) JNull \<noteq> JNull"
    and "get_default data (ADJUSTMENT_NUMBER env) JNull = JNull"
  shows "resize_call env req cluster_id data st =
     (Inl (if in_ADJUSTMENT_TYPES env (get_default data (ADJUSTMENT_TYPE env) JNull)
           then HTTPBadRequest ''Missing number value for resize operation.''
           else InvalidParameter ''adjustment_type'' (get_default data (ADJUSTMENT_TYPE env) JNull)),
      st)"
  using assms by (simp add: resize_call_def)

lemma resize_call_no_type:
  assumes "get_default data (ADJUSTMENT_TYPE env) JNull = JNull"
    and "get_default data (ADJUSTMENT_NUMBER env) JNull \<noteq> JNull"
  shows "resize_call env req cluster_id data st =
     (Inl (HTTPBadRequest ''Missing adjustment_type value for resize operation.''), st)"
  using assms by (simp add: resize_call_def)

lemma in_ADJUSTMENT_TYPES_JNull [simp]: "\<not> in_ADJUSTMENT_TYPES env JNull"
  by (simp add: in_ADJUSTMENT_TYPES_def)

lemma resize_call_sizes:
  fixes st :: 's
  assumes "get_default data (ADJUSTMENT_MIN_SIZE env) JNull \<noteq> JNull"
    and "get_default data (ADJUSTMENT_MAX_SIZE env) JNull \<noteq> JNull"
    and "parse_int_param env (ADJUSTMENT_MIN_SIZE env)
           (get_default data (ADJUSTMENT_MIN_SIZE env) JNull) False = Inr n"
    and "parse_int_param env (ADJUSTMENT_MAX_SIZE env)
           (get_default data (ADJUSTMENT_MAX_SIZE env) JNull) True = Inr m"
    and "0 < m" "m < n"
  shows "\<exists>e. resize_call env req cluster_id data st = (Inl e, st)"
proof -
  define A :: "('s, unit) io" where
    "A = (if get_default data (ADJUSTMENT_TYPE env) JNull \<noteq> JNull then
             if \<not> in_ADJUSTMENT_TYPES env (get_default data (ADJUSTMENT_TYPE env) JNull) then
               raise (InvalidParameter ''adjustment_type'' (get_default data (ADJUSTMENT_TYPE env) JNull))
             else if get_default data (ADJUSTMENT_NUMBER env) JNull = JNull then
               raise (HTTPBadRequest ''Missing number value for resize operation.'')
             else return ()
           else return ())"
  define B :: "('s, int option) io" where
    "B = (if get_default data (ADJUSTMENT_NUMBER env) JNull \<noteq> JNull then
             if get_default data (ADJUSTMENT_TYPE env) JNull = JNull then
               raise (HTTPBadRequest ''Missing adjustment_type value for resize operation.'')
             else bind (lift (parse_int_param env (ADJUSTMENT_NUMBER env)
                          (get_default data (ADJUSTMENT_NUMBER env) JNull) True))
                    (\<lambda>n. return (Some n))
           else return None)"
  have pA: "pure A" and pB: "pure B"
    unfolding A_def B_def by simp_all
  have "resize_call env req cluster_id data =
          bind A (\<lambda>_. bind B (\<lambda>number. raise (HTTPBadRequest
            (''The specified min_size ('' @ py_str env (JInt n) @
             '') is greater than the specified max_size ('' @ py_str env (JInt m) @ '').''))))"
    unfolding resize_call_def Let_def A_def [symmetric] B_def [symmetric]
    using assms by (simp add: parse_opt_def)
  then show ?thesis
    by (simp only:) (intro fails_bind pA pB, simp)
qed

lemma resize_call_sizes_HTTPBadRequest:
  assumes "get_default data (ADJUSTMENT_MIN_SIZE env) JNull \<noteq> JNull"
    and "get_default data (ADJUSTMENT_MAX_SIZE env) JNull \<noteq> JNull"
    and "parse_int_param env (ADJUSTMENT_MIN_SIZE env)
           (get_default data (ADJUSTMENT_MIN_SIZE env) JNull) False = Inr n"
    and "parse_int_param env (ADJUSTMENT_MAX_SIZE env)
           (get_default data (ADJUSTMENT_MAX_SIZE env) JNull) True = Inr m"
    and "0 < m" "m < n"
    and ok: "(get_default data (ADJUSTMENT_TYPE env) JNull = JNull \<and>
          get_default data (ADJUSTMENT_NUMBER env) JNull = JNull) \<or>
         (in_ADJUSTMENT_TYPES env (get_default data (ADJUSTMENT_TYPE env) JNull) \<and>
          parse_int_param env (ADJUSTMENT_NUMBER env)
                 (get_default data (ADJUSTMENT_NUMBER env) JNull) True = Inr k)"
  shows "\<exists>msg. resize_call env req cluster_id data st = (Inl (HTTPBadRequest msg), st)"
proof -
  from ok consider
    (none) "get_default data (ADJUSTMENT_TYPE env) JNull = JNull"
      "get_default data (ADJUSTMENT_NUMBER env) JNull = JNull"
  | (both) "in_ADJUSTMENT_TYPES env (get_default data (ADJUSTMENT_TYPE env) JNull)"
      "parse_int_param env (ADJUSTMENT_NUMBER env)
                 (get_default data (ADJUSTMENT_NUMBER env) JNull) True = Inr k"
    by blast
  then show ?thesis
  proof cases
    case none
    with assms(1-6) show ?thesis by (simp add: resize_call_def Let_def parse_opt_def)
  next
    case both
    then have "get_default data (ADJUSTMENT_TYPE env) JNull \<noteq> JNull"
      by (metis in_ADJUSTMENT_TYPES_JNull)
    with both assms(1-6) show ?thesis
      by (cases "get_default data (ADJUSTMENT_NUMBER env) JNull = JNull")
         (simp_all add: resize_call_def Let_def parse_opt_def)
  qed
qed

lemma resize_call_strict:
  assumes "resize_call env req cluster_id data st = (Inr c, st')"
    and "get_default data (ADJUSTMENT_STRICT env) JNull = JNull"
  shows "\<exists>number min_size max_size min_step.
           c = ClusterResize (req_context req) cluster_id
                 (get_default data (ADJUSTMENT_TYPE env) JNull)
                 number min_size max_size min_step True"
  using assms unfolding resize_call_def Let_def
  by (elim bind_returns) simp

lemma rpc_trace:
  assumes "bind (traced_rpc rpc c) k (s, []) = (r, (s', tr))" and "\<And>a. pure (k a)"
  shows "\<exists>reply. tr = [(c, reply)]"
proof (cases "rpc c s")
  case (Pair reply s1)
  then have t: "traced_rpc rpc c (s, []) = (reply, (s1, [(c, reply)]))"
    by (simp add: traced_rpc_def)
  show ?thesis
  proof (cases reply)
    case (Inl e)
    with t assms(1) show ?thesis by (auto simp: bind_def)
  next
    case (Inr a)
    with t assms(1) have "k a (s1, [(c, reply)]) = (r, (s', tr))" by (simp add: bind_def)
    from pureD [OF assms(2) this] show ?thesis by simp
  qed
qed

lemma do_resize_strict:
  fixes rpc :: "('c, 's) rpc_client"
  assumes run: "do_resize (traced_rpc rpc) env req cluster_id ''resize''
             (JDict [(''resize'', JDict data)]) (s, []) = (r, (s', tr))"
    and strict: "get_default data (ADJUSTMENT_STRICT env) JNull = JNull"
  shows "tr = [] \<or> (\<exists>number min_size max_size min_step reply.
           tr = [(ClusterResize (req_context req) cluster_id
                    (get_default data (ADJUSTMENT_TYPE env) JNull)
                    number min_size max_size min_step True, reply)])"
proof -
  let ?st = "(s, []) :: 's \<times> ('c rpc_call \<times> (exn + json)) list"
  let ?v = "fst (resize_call env req cluster_id data ?st)"
  have split: "do_resize (traced_rpc rpc) env req cluster_id ''resize''
      (JDict [(''resize'', JDict data)]) ?st =
      (case ?v of Inl e \<Rightarrow> (Inl e, ?st)
       | Inr c \<Rightarrow> bind (traced_rpc rpc c) (with_location env) ?st)"
    by (simp add: do_resize_split bind_pure)
  show ?thesis
  proof (cases ?v)
    case (Inl e)
    with run split show ?thesis by simp
  next
    case (Inr c)
    with run split have
      "bind (traced_rpc rpc c) (with_location env) (s, []) = (r, (s', tr))"
      by simp
    from rpc_trace [OF this pure_with_location] obtain reply where t: "tr = [(c, reply)]" ..
    from Inr have "resize_call env req cluster_id data ?st =
        (Inr c, snd (resize_call env req cluster_id data ?st))"
      by (metis prod.collapse)
    from resize_call_strict [OF this strict] t show ?thesis by blast
  qed
qed

subsection \<open>Malformed action requests\<close>

text \<open>
  C6. A request to the action endpoint whose body is empty (\<open>None\<close> or an empty
  dictionary), holds more than one key, or holds one key that is not a supported
  action, is answered with \<open>HTTPBadRequest\<close>; no RPC call is made and the engine's
  state is untouched.
\<close>

theorem action_rejects_malformed:
  assumes "\<not> truthy body \<or> (\<exists>d. body = JDict d \<and> 1 < length d) \<or>
           (\<exists>k v. body = JDict [(k, v)] \<and> k \<notin> set SUPPORTED_ACTIONS)"
  shows "\<exists>msg. action (traced_rpc rpc) env req cluster_id body (s, []) =
           (Inl (HTTPBadRequest msg), (s, []))"
  using assms
proof (elim disjE exE conjE)
  assume "\<not> truthy body"
  then show ?thesis by (simp add: action_def)
next
  fix d assume "body = JDict d" "1 < length d"
  then show ?thesis by (auto simp: action_def)
next
  fix k v assume "body = JDict [(k, v)]" "k \<notin> set SUPPORTED_ACTIONS"
  then show ?thesis by (simp add: action_def)
qed

theorem action_rejects_malformed_witness:
  "(\<exists>msg. action (traced_rpc rpc0) env0 req0 ''c1'' JNull (0, []) =
      (Inl (HTTPBadRequest msg), (0, []))) \<and>
   (\<exists>msg. action (traced_rpc rpc0) env0 req0 ''c1''
      (JDict [(''scale_out'', JDict []), (''scale_in'', JDict [])]) (0, []) =
      (Inl (HTTPBadRequest msg), (0, []))) \<and>
   (\<exists>msg. action (traced_rpc rpc0) env0 req0 ''c1'' (JDict [(''reboot'', JDict [])]) (0, []) =
      (Inl (HTTPBadRequest msg), (0, []))) \<and>
   action (traced_rpc rpc0) env0 req0 ''c1'' (JDict [(''reboot'', JDict [])]) (0, []) =
      (Inl (HTTPBadRequest ''Unrecognized action 'reboot' specified''), (0, []))"
proof -
  have 1: "\<not> truthy JNull \<or> (\<exists>d. JNull = JDict d \<and> 1 < length d) \<or>
           (\<exists>k v. JNull = JDict [(k, v)] \<and> k \<notin> set SUPPORTED_ACTIONS)"
    by simp
  have 2: "\<not> truthy (JDict [(''scale_out'', JDict []), (''scale_in'', JDict [])]) \<or>
      (\<exists>d. JDict [(''scale_out'', JDict []), (''scale_in'', JDict [])] = JDict d \<and> 1 < length d) \<or>
      (\<exists>k v. JDict [(''scale_out'', JDict []), (''scale_in'', JDict [])] = JDict [(k, v)] \<and>
         k \<notin> set SUPPORTED_ACTIONS)"
    by simp
  have 3: "\<not> truthy (JDict [(''reboot'', JDict [])]) \<or>
      (\<exists>d. JDict [(''reboot'', JDict [])] = JDict d \<and> 1 < length d) \<or>
      (\<exists>k v. JDict [(''reboot'', JDict [])] = JDict [(k, v)] \<and> k \<notin> set SUPPORTED_ACTIONS)"
    by (simp add: SUPPORTED_ACTIONS_def)
  have 4: "action (traced_rpc rpc0) env0 req0 ''c1'' (JDict [(''reboot'', JDict [])]) (0, []) =
      (Inl (HTTPBadRequest ''Unrecognized action 'reboot' specified''), (0, []))"
    by (simp add: ctl_simps)
  show ?thesis
    by (intro conjI action_rejects_malformed [OF 1] action_rejects_malformed [OF 2]
        action_rejects_malformed [OF 3] 4)
qed

subsection \<open>Validation of a resize request\<close>

text \<open>
  C7, as stated, fails: with an \<open>adjustment_type\<close> that is not one of the supported
  types and no \<open>number\<close>, \<open>_do_resize\<close> raises \<open>InvalidParameter\<close>, not
  \<open>HTTPBadRequest\<close>.
\<close>

theorem resize_unsupported_type_counterexample:
  "get_default [(''adjustment_type'', JStr ''BOGUS'')] (ADJUSTMENT_TYPE env0) JNull \<noteq> JNull \<and>
   get_default [(''adjustment_type'', JStr ''BOGUS'')] (ADJUSTMENT_NUMBER env0) JNull = JNull \<and>
   action (traced_rpc rpc0) env0 req0 ''c1''
     (JDict [(''resize'', JDict [(''adjustment_type'', JStr ''BOGUS'')])]) (0, []) =
   (Inl (InvalidParameter ''adjustment_type'' (JStr ''BOGUS'')), (0, []))"
  by (simp add: ctl_simps get_default_def)

text \<open>
  C7, amended. For a resize request whose payload is a dictionary:
  with \<open>adjustment_type\<close> given and \<open>number\<close> missing the controller raises
  \<open>HTTPBadRequest\<close> when the type is a supported one and \<open>InvalidParameter\<close> when it is
  not; with \<open>number\<close> given and \<open>adjustment_type\<close> missing it raises \<open>HTTPBadRequest\<close>;
  with \<open>min_size\<close> and \<open>max_size\<close> both given, accepted by \<open>parse_int_param\<close>,
  \<open>max_size\<close> positive and \<open>min_size\<close> greater than \<open>max_size\<close> it raises an exception,
  which is \<open>HTTPBadRequest\<close> whenever the checks of \<open>adjustment_type\<close> and \<open>number\<close>
  before it pass. In each of these cases no RPC call is made. Whenever \<open>strict\<close> is
  missing, the only RPC call that can have been made is \<open>cluster_resize\<close> with
  \<open>strict = True\<close>.
\<close>

theorem resize_validation:
  fixes rpc :: "('c, 's) rpc_client"
  assumes body: "body = JDict [(''resize'', JDict data)]"
  shows
  "(get_default data (ADJUSTMENT_TYPE env) JNull \<noteq> JNull \<and>
    get_default data (ADJUSTMENT_NUMBER env) JNull = JNull \<longrightarrow>
      action (traced_rpc rpc) env req cluster_id body (s, []) =
        (Inl (if in_ADJUSTMENT_TYPES env (get_default data (ADJUSTMENT_TYPE env) JNull)
              then HTTPBadRequest ''Missing number value for resize operation.''
              else InvalidParameter ''adjustment_type''
                     (get_default data (ADJUSTMENT_TYPE env) JNull)), (s, []))) \<and>
   (get_default data (ADJUSTMENT_TYPE env) JNull = JNull \<and>
    get_default data (ADJUSTMENT_NUMBER env) JNull \<noteq> JNull \<longrightarrow>
      action (traced_rpc rpc) env req cluster_id body (s, []) =
        (Inl (HTTPBadRequest ''Missing adjustment_type value for resize operation.''), (s, []))) \<and>
   (\<forall>n m. get_default data (ADJUSTMENT_MIN_SIZE env) JNull \<noteq> JNull \<and>
      get_default data (ADJUSTMENT_MAX_SIZE env) JNull \<noteq> JNull \<and>
      parse_int_param env (ADJUSTMENT_MIN_SIZE env)
        (get_default data (ADJUSTMENT_MIN_SIZE env) JNull) False = Inr n \<and>
      parse_int_param env (ADJUSTMENT_MAX_SIZE env)
        (get_default data (ADJUSTMENT_MAX_SIZE env) JNull) True = Inr m \<and>
      0 < m \<and> m < n \<longrightarrow>
        (\<exists>e. action (traced_rpc rpc) env req cluster_id body (s, []) = (Inl e, (s, []))) \<and>
        ((get_default data (ADJUSTMENT_TYPE env) JNull = JNull \<and>
          get_default data (ADJUSTMENT_NUMBER env) JNull = JNull) \<or>
         (in_ADJUSTMENT_TYPES env (get_default data (ADJUSTMENT_TYPE env) JNull) \<and>
          (\<exists>k. parse_int_param env (ADJUSTMENT_NUMBER env)
                 (get_default data (ADJUSTMENT_NUMBER env) JNull) True = Inr k)) \<longrightarrow>
         (\<exists>msg. action (traced_rpc rpc) env req cluster_id body (s, []) =
            (Inl (HTTPBadRequest msg), (s, []))))) \<and>
   (\<forall>r s' tr. action (traced_rpc rpc) env req cluster_id body (s, []) = (r, (s', tr)) \<and>
      get_default data (ADJUSTMENT_STRICT env) JNull = JNull \<longrightarrow>
        tr = [] \<or> (\<exists>number min_size max_size min_step reply.
           tr = [(ClusterResize (req_context req) cluster_id
                    (get_default data (ADJUSTMENT_TYPE env) JNull)
                    number min_size max_size min_step True, reply)]))"
proof -
  let ?st = "(s, []) :: 's \<times> ('c rpc_call \<times> (exn + json)) list"
  have a: "action (traced_rpc rpc) env req cluster_id body ?st =
      bind (resize_call env req cluster_id data)
        (\<lambda>c. bind (traced_rpc rpc c) (with_location env)) ?st"
    unfolding body action_resize do_resize_split ..
  have fail: "action (traced_rpc rpc) env req cluster_id body ?st = (Inl e, ?st)"
    if "resize_call env req cluster_id data ?st = (Inl e, ?st)" for e
    unfolding a using that by (simp add: bind_def)
  have 1: "action (traced_rpc rpc) env req cluster_id body (s, []) =
        (Inl (if in_ADJUSTMENT_TYPES env (get_default data (ADJUSTMENT_TYPE env) JNull)
              then HTTPBadRequest ''Missing number value for resize operation.''
              else InvalidParameter ''adjustment_type''
                     (get_default data (ADJUSTMENT_TYPE env) JNull)), (s, []))"
    if "get_default data (ADJUSTMENT_TYPE env) JNull \<noteq> JNull"
      "get_default data (ADJUSTMENT_NUMBER env) JNull = JNull"
    using that by (intro fail resize_call_no_number)
  have 2: "action (traced_rpc rpc) env req cluster_id body (s, []) =
        (Inl (HTTPBadRequest ''Missing adjustment_type value for resize operation.''), (s, []))"
    if "get_default data (ADJUSTMENT_TYPE env) JNull = JNull"
      "get_default data (ADJUSTMENT_NUMBER env) JNull \<noteq> JNull"
    using that by (intro fail resize_call_no_type)
  have 3: "\<exists>e. action (traced_rpc rpc) env req cluster_id body (s, []) = (Inl e, (s, []))"
    if "get_default data (ADJUSTMENT_MIN_SIZE env) JNull \<noteq> JNull"
      "get_default data (ADJUSTMENT_MAX_SIZE env) JNull \<noteq> JNull"
      "parse_int_param env (ADJUSTMENT_MIN_SIZE env)
        (get_default data (ADJUSTMENT_MIN_SIZE env) JNull) False = Inr n"
      "parse_int_param env (ADJUSTMENT_MAX_SIZE env)
        (get_default data (ADJUSTMENT_MAX_SIZE env) JNull) True = Inr m"
      "0 < m" "m < n" for n m
  proof -
    from resize_call_sizes [OF that, of req cluster_id ?st] obtain e where
      "resize_call env req cluster_id data ?st = (Inl e, ?st)" ..
    from fail [OF this] show ?thesis ..
  qed
  have 4: "\<exists>msg. action (traced_rpc rpc) env req cluster_id body (s, []) =
            (Inl (HTTPBadRequest msg), (s, []))"
    if sz: "get_default data (ADJUSTMENT_MIN_SIZE env) JNull \<noteq> JNull"
      "get_default data (ADJUSTMENT_MAX_SIZE env) JNull \<noteq> JNull"
      "parse_int_param env (ADJUSTMENT_MIN_SIZE env)
        (get_default data (ADJUSTMENT_MIN_SIZE env) JNull) False = Inr n"
      "parse_int_param env (ADJUSTMENT_MAX_SIZE env)
        (get_default data (ADJUSTMENT_MAX_SIZE env) JNull) True = Inr m"
      "0 < m" "m < n"
    and ok: "(get_default data (ADJUSTMENT_TYPE env) JNull = JNull \<and>
          get_default data (ADJUSTMENT_NUMBER env) JNull = JNull) \<or>
         (in_ADJUSTMENT_TYPES env (get_default data (ADJUSTMENT_TYPE env) JNull) \<and>
          (\<exists>k. parse_int_param env (ADJUSTMENT_NUMBER env)
                 (get_default data (ADJUSTMENT_NUMBER env) JNull) True = Inr k))" for n m
  proof -
    from ok have "\<exists>k. (get_default data (ADJUSTMENT_TYPE env) JNull = JNull \<and>
          get_default data (ADJUSTMENT_NUMBER env) JNull = JNull) \<or>
         (in_ADJUSTMENT_TYPES env (get_default data (ADJUSTMENT_TYPE env) JNull) \<and>
          parse_int_param env (ADJUSTMENT_NUMBER env)
                 (get_default data (ADJUSTMENT_NUMBER env) JNull) True = Inr k)"
      by blast
    then obtain k where "(get_default data (ADJUSTMENT_TYPE env) JNull = JNull \<and>
          get_default data (ADJUSTMENT_NUMBER env) JNull = JNull) \<or>
         (in_ADJUSTMENT_TYPES env (get_default data (ADJUSTMENT_TYPE env) JNull) \<and>
          parse_int_param env (ADJUSTMENT_NUMBER env)
                 (get_default data (ADJUSTMENT_NUMBER env) JNull) True = Inr k)" ..
    from resize_call_sizes_HTTPBadRequest [OF sz this, of req cluster_id ?st] obtain msg where
      "resize_call env req cluster_id data ?st = (Inl (HTTPBadRequest msg), ?st)" ..
    from fail [OF this] show ?thesis ..
  qed
  have 5: "tr = [] \<or> (\<exists>number min_size max_size min_step reply.
           tr = [(ClusterResize (req_context req) cluster_id
                    (get_default data (ADJUSTMENT_TYPE env) JNull)
                    number min_size max_size min_step True, reply)])"
    if "action (traced_rpc rpc) env req cluster_id body (s, []) = (r, (s', tr))"
      "get_default data (ADJUSTMENT_STRICT env) JNull = JNull" for r s' tr
    using that(1) unfolding body action_resize
    by (rule do_resize_strict) (rule that(2))
  show ?thesis
    apply (intro conjI impI allI; (elim conjE)?)
    subgoal by (rule 1)
    subgoal by (rule 2)
    subgoal for n m by (rule 3)
    subgoal for n m by (rule 4)
    subgoal for r s' tr by (rule 5)
    done
qed

theorem resize_validation_witness:
  "action (traced_rpc rpc0) env0 req0 ''c1''
     (JDict [(''resize'', JDict [(''adjustment_type'', JStr ''EXACT_CAPACITY'')])]) (0, []) =
     (Inl (HTTPBadRequest ''Missing number value for resize operation.''), (0, [])) \<and>
   action (traced_rpc rpc0) env0 req0 ''c1''
     (JDict [(''resize'', JDict [(''number'', JInt 3)])]) (0, []) =
     (Inl (HTTPBadRequest ''Missing adjustment_type value for resize operation.''), (0, [])) \<and>
   (\<exists>msg. action (traced_rpc rpc0) env0 req0 ''c1''
     (JDict [(''resize'', JDict [(''min_size'', JInt 12), (''max_size'', JInt 3)])]) (0, []) =
     (Inl (HTTPBadRequest msg), (0, []))) \<and>
   ([(ClusterResize () ''c1'' (JStr ''EXACT_CAPACITY'') (Some 3) None None None True,
      Inr (JDict [(''action'', JStr ''a-1'')]) :: exn + json)] = [] \<or>
    (\<exists>number min_size max_size min_step reply.
       [(ClusterResize () ''c1'' (JStr ''EXACT_CAPACITY'') (Some 3) None None None True,
         Inr (JDict [(''action'', JStr ''a-1'')]))] =
       [(ClusterResize (req_context req0) ''c1''
           (get_default [(''adjustment_type'', JStr ''EXACT_CAPACITY''), (''number'', JInt 3)]
              (ADJUSTMENT_TYPE env0) JNull)
           number min_size max_size min_step True, reply)]))"
proof -
  let ?D1 = "[(''adjustment_type'', JStr ''EXACT_CAPACITY'')]"
  let ?D2 = "[(''number'', JInt 3)]"
  let ?D3 = "[(''min_size'', JInt 12), (''max_size'', JInt 3)]"
  let ?D4 = "[(''adjustment_type'', JStr ''EXACT_CAPACITY''), (''number'', JInt 3)]"
  have p1: "get_default ?D1 (ADJUSTMENT_TYPE env0) JNull \<noteq> JNull \<and>
            get_default ?D1 (ADJUSTMENT_NUMBER env0) JNull = JNull"
    by (simp add: env0_def get_default_def)
  have t1: "in_ADJUSTMENT_TYPES env0 (get_default ?D1 (ADJUSTMENT_TYPE env0) JNull)"
    by (simp add: env0_def get_default_def in_ADJUSTMENT_TYPES_def)
  note r1 = resize_validation [where rpc = rpc0 and env = env0 and req = req0
      and cluster_id = "''c1''" and s = 0 and data = ?D1, OF refl, THEN conjunct1, THEN mp, OF p1]
  have 1: "action (traced_rpc rpc0) env0 req0 ''c1'' (JDict [(''resize'', JDict ?D1)]) (0, []) =
     (Inl (HTTPBadRequest ''Missing number value for resize operation.''), (0, []))"
    using r1 t1 by (simp only: if_True)
  have p2: "get_default ?D2 (ADJUSTMENT_TYPE env0) JNull = JNull \<and>
            get_default ?D2 (ADJUSTMENT_NUMBER env0) JNull \<noteq> JNull"
    by (simp add: env0_def get_default_def)
  note 2 = resize_validation [where rpc = rpc0 and env = env0 and req = req0
      and cluster_id = "''c1''" and s = 0 and data = ?D2, OF refl,
      THEN conjunct2, THEN conjunct1, THEN mp, OF p2]
  have p3: "get_default ?D3 (ADJUSTMENT_MIN_SIZE env0) JNull \<noteq> JNull \<and>
      get_default ?D3 (ADJUSTMENT_MAX_SIZE env0) JNull \<noteq> JNull \<and>
      parse_int_param env0 (ADJUSTMENT_MIN_SIZE env0)
        (get_default ?D3 (ADJUSTMENT_MIN_SIZE env0) JNull) False = Inr 12 \<and>
      parse_int_param env0 (ADJUSTMENT_MAX_SIZE env0)
        (get_default ?D3 (ADJUSTMENT_MAX_SIZE env0) JNull) True = Inr 3 \<and>
      (0::int) < 3 \<and> (3::int) < 12"
    by (simp add: env0_def get_default_def)
  have q3: "(get_default ?D3 (ADJUSTMENT_TYPE env0) JNull = JNull \<and>
          get_default ?D3 (ADJUSTMENT_NUMBER env0) JNull = JNull) \<or>
         (in_ADJUSTMENT_TYPES env0 (get_default ?D3 (ADJUSTMENT_TYPE env0) JNull) \<and>
          (\<exists>k. parse_int_param env0 (ADJUSTMENT_NUMBER env0)
                 (get_default ?D3 (ADJUSTMENT_NUMBER env0) JNull) True = Inr k))"
    by (simp add: env0_def get_default_def)
  note 3 = resize_validation [where rpc = rpc0 and env = env0 and req = req0
      and cluster_id = "''c1''" and s = 0 and data = ?D3, OF refl,
      THEN conjunct2, THEN conjunct2, THEN conjunct1, THEN spec, THEN spec, THEN mp, OF p3,
      THEN conjunct2, THEN mp, OF q3]
  have run: "action (traced_rpc rpc0) env0 req0 ''c1'' (JDict [(''resize'', JDict ?D4)]) (0, []) =
     (Inr (JDict [(''action'', JStr ''a-1''), (''location'', JStr ''/actions/a-1'')]),
      (1, [(ClusterResize () ''c1'' (JStr ''EXACT_CAPACITY'') (Some 3) None None None True,
            Inr (JDict [(''action'', JStr ''a-1'')]))])) \<and>
     get_default ?D4 (ADJUSTMENT_STRICT env0) JNull = JNull"
    by (simp add: ctl_simps get_default_def)
  note 4 = resize_validation [where rpc = rpc0 and env = env0 and req = req0
      and cluster_id = "''c1''" and s = 0 and data = ?D4, OF refl,
      THEN conjunct2, THEN conjunct2, THEN conjunct2, THEN spec, THEN spec, THEN spec,
      THEN mp, OF run]
  show ?thesis
    apply (intro conjI)
    subgoal by (rule 1)
    subgoal by (rule 2)
    subgoal by (rule 3)
    subgoal using 4 by simp
    done
qed

subsection \<open>The location of the action\<close>

text \<open>
  C8. When \<open>create\<close>, \<open>update\<close>, \<open>delete\<close> or \<open>action\<close> returns, it has made exactly one
  RPC call, the reply to that call is a dictionary with an \<open>action\<close> entry, and the
  \<open>location\<close> entry of the result is the string \<open>/actions/\<close> followed by that action
  id (by what \<open>str\<close> prints for it, should the id not be a string).
\<close>

theorem mutations_return_location:
  "(create (traced_rpc rpc) env req body (s, []) = (Inr res, (s', tr)) \<longrightarrow>
      (\<exists>c reply action_id r.
        tr = [(c, Inr (JDict reply))] \<and> map_of reply ''action'' = Some action_id \<and>
        res = JDict r \<and>
        map_of r ''location'' =
          Some (JStr (''/actions/'' @
            (case action_id of JStr a \<Rightarrow> a | _ \<Rightarrow> py_str env action_id))))) \<and>
   (update (traced_rpc rpc) env req cluster_id body (s, []) = (Inr res, (s', tr)) \<longrightarrow>
      (\<exists>c reply action_id r.
        tr = [(c, Inr (JDict reply))] \<and> map_of reply ''action'' = Some action_id \<and>
        res = JDict r \<and>
        map_of r ''location'' =
          Some (JStr (''/actions/'' @
            (case action_id of JStr a \<Rightarrow> a | _ \<Rightarrow> py_str env action_id))))) \<and>
   (delete (traced_rpc rpc) env req cluster_id (s, []) = (Inr res, (s', tr)) \<longrightarrow>
      (\<exists>c reply action_id r.
        tr = [(c, Inr (JDict reply))] \<and> map_of reply ''action'' = Some action_id \<and>
        res = JDict r \<and>
        map_of r ''location'' =
          Some (JStr (''/actions/'' @
            (case action_id of JStr a \<Rightarrow> a | _ \<Rightarrow> py_str env action_id))))) \<and>
   (action (traced_rpc rpc) env req cluster_id body (s, []) = (Inr res, (s', tr)) \<longrightarrow>
      (\<exists>c reply action_id r.
        tr = [(c, Inr (JDict reply))] \<and> map_of reply ''action'' = Some action_id \<and>
        res = JDict r \<and>
        map_of r ''location'' =
          Some (JStr (''/actions/'' @
            (case action_id of JStr a \<Rightarrow> a | _ \<Rightarrow> py_str env action_id)))))"
proof (intro conjI impI)
  assume "create (traced_rpc rpc) env req body (s, []) = (Inr res, (s', tr))"
  then have "located env res tr" by (rule create_located)
  then show "\<exists>c reply action_id r.
      tr = [(c, Inr (JDict reply))] \<and> map_of reply ''action'' = Some action_id \<and>
      res = JDict r \<and>
      map_of r ''location'' =
        Some (JStr (''/actions/'' @
          (case action_id of JStr a \<Rightarrow> a | _ \<Rightarrow> py_str env action_id)))" by (rule locatedD)
next
  assume "update (traced_rpc rpc) env req cluster_id body (s, []) = (Inr res, (s', tr))"
  then have "located env res tr" by (rule update_located)
  then show "\<exists>c reply action_id r.
      tr = [(c, Inr (JDict reply))] \<and> map_of reply ''action'' = Some action_id \<and>
      res = JDict r \<and>
      map_of r ''location'' =
        Some (JStr (''/actions/'' @
          (case action_id of JStr a \<Rightarrow> a | _ \<Rightarrow> py_str env action_id)))" by (rule locatedD)
next
  assume "delete (traced_rpc rpc) env req cluster_id (s, []) = (Inr res, (s', tr))"
  then have "located env res tr" by (rule delete_located)
  then show "\<exists>c reply action_id r.
      tr = [(c, Inr (JDict reply))] \<and> map_of reply ''action'' = Some action_id \<and>
      res = JDict r \<and>
      map_of r ''location'' =
        Some (JStr (''/actions/'' @
          (case action_id of JStr a \<Rightarrow> a | _ \<Rightarrow> py_str env action_id)))" by (rule locatedD)
next
  assume "action (traced_rpc rpc) env req cluster_id body (s, []) = (Inr res, (s', tr))"
  then have "located env res tr" by (rule action_located)
  then show "\<exists>c reply action_id r.
      tr = [(c, Inr (JDict reply))] \<and> map_of reply ''action'' = Some action_id \<and>
      res = JDict r \<and>
      map_of r ''location'' =
        Some (JStr (''/actions/'' @
          (case action_id of JStr a \<Rightarrow> a | _ \<Rightarrow> py_str env action_id)))" by (rule locatedD)
qed

theorem mutations_return_location_witness:
  "create (traced_rpc (rpc1 ''a-17'')) env0 req0 (JDict [(''cluster'', JDict [(''name'', JStr ''web'')])]) (0, []) =
      (Inr (JDict [(''cluster'', JDict []), (''location'', JStr ''/actions/a-17'')]),
       (1, [(Call2 () ''cluster_create2'' (JDict [(''name'', JStr ''web'')]),
             Inr (JDict [(''action'', JStr ''a-17'')]))])) \<and>
   (\<exists>c reply action_id r.
      [(Call2 () ''cluster_create2'' (JDict [(''name'', JStr ''web'')]), Inr (JDict [(''action'', JStr ''a-17'')]) :: exn + json)] = [(c, Inr (JDict reply))] \<and>
      map_of reply ''action'' = Some action_id \<and>
      JDict [(''cluster'', JDict []), (''location'', JStr ''/actions/a-17'')] = JDict r \<and>
      map_of r ''location'' =
        Some (JStr (''/actions/'' @
          (case action_id of JStr a \<Rightarrow> a | _ \<Rightarrow> py_str env0 action_id)))) \<and>
   update (traced_rpc (rpc1 ''b-2'')) env0 req0 ''c1'' (JDict [(''cluster'', JDict [(''name'', JStr ''web'')])]) (0, []) =
      (Inr (JDict [(''cluster'', JDict []), (''location'', JStr ''/actions/b-2'')]),
       (1, [(Call2 () ''cluster_update2'' (JDict [(''name'', JStr ''web''), (''identity'', JStr ''c1'')]),
             Inr (JDict [(''action'', JStr ''b-2'')]))])) \<and>
   (\<exists>c reply action_id r.
      [(Call2 () ''cluster_update2'' (JDict [(''name'', JStr ''web''), (''identity'', JStr ''c1'')]), Inr (JDict [(''action'', JStr ''b-2'')]) :: exn + json)] = [(c, Inr (JDict reply))] \<and>
      map_of reply ''action'' = Some action_id \<and>
      JDict [(''cluster'', JDict []), (''location'', JStr ''/actions/b-2'')] = JDict r \<and>
      map_of r ''location'' =
        Some (JStr (''/actions/'' @
          (case action_id of JStr a \<Rightarrow> a | _ \<Rightarrow> py_str env0 action_id)))) \<and>
   delete (traced_rpc (rpc1 ''zzz-999'')) env0 req0 ''c1'' (0, []) =
      (Inr (JDict [(''location'', JStr ''/actions/zzz-999'')]),
       (1, [(ClusterDelete () ''c1'' False,
             Inr (JDict [(''action'', JStr ''zzz-999'')]))])) \<and>
   (\<exists>c reply action_id r.
      [(ClusterDelete () ''c1'' False, Inr (JDict [(''action'', JStr ''zzz-999'')]) :: exn + json)] = [(c, Inr (JDict reply))] \<and>
      map_of reply ''action'' = Some action_id \<and>
      JDict [(''location'', JStr ''/actions/zzz-999'')] = JDict r \<and>
      map_of r ''location'' =
        Some (JStr (''/actions/'' @
          (case action_id of JStr a \<Rightarrow> a | _ \<Rightarrow> py_str env0 action_id)))) \<and>
   action (traced_rpc (rpc1 ''q-5'')) env0 req0 ''c1'' (JDict [(''scale_out'', JDict [(''count'', JInt 2)])]) (0, []) =
      (Inr (JDict [(''action'', JStr ''q-5''), (''location'', JStr ''/actions/q-5'')]),
       (1, [(ClusterScaleOut () ''c1'' (JInt 2),
             Inr (JDict [(''action'', JStr ''q-5'')]))])) \<and>
   (\<exists>c reply action_id r.
      [(ClusterScaleOut () ''c1'' (JInt 2), Inr (JDict [(''action'', JStr ''q-5'')]) :: exn + json)] = [(c, Inr (JDict reply))] \<and>
      map_of reply ''action'' = Some action_id \<and>
      JDict [(''action'', JStr ''q-5''), (''location'', JStr ''/actions/q-5'')] = JDict r \<and>
      map_of r ''location'' =
        Some (JStr (''/actions/'' @
          (case action_id of JStr a \<Rightarrow> a | _ \<Rightarrow> py_str env0 action_id))))"
proof -
  have c: "create (traced_rpc (rpc1 ''a-17'')) env0 req0 (JDict [(''cluster'', JDict [(''name'', JStr ''web'')])]) (0, []) =
      (Inr (JDict [(''cluster'', JDict []), (''location'', JStr ''/actions/a-17'')]),
       (1, [(Call2 () ''cluster_create2'' (JDict [(''name'', JStr ''web'')]),
             Inr (JDict [(''action'', JStr ''a-17'')]))]))"
    by (simp add: ctl_simps rpc1_def)
  have u: "update (traced_rpc (rpc1 ''b-2'')) env0 req0 ''c1'' (JDict [(''cluster'', JDict [(''name'', JStr ''web'')])]) (0, []) =
      (Inr (JDict [(''cluster'', JDict []), (''location'', JStr ''/actions/b-2'')]),
       (1, [(Call2 () ''cluster_update2'' (JDict [(''name'', JStr ''web''), (''identity'', JStr ''c1'')]),
             Inr (JDict [(''action'', JStr ''b-2'')]))]))"
    by (simp add: ctl_simps rpc1_def)
  have d: "delete (traced_rpc (rpc1 ''zzz-999'')) env0 req0 ''c1'' (0, []) =
      (Inr (JDict [(''location'', JStr ''/actions/zzz-999'')]),
       (1, [(ClusterDelete () ''c1'' False,
             Inr (JDict [(''action'', JStr ''zzz-999'')]))]))"
    by (simp add: ctl_simps rpc1_def)
  have a: "action (traced_rpc (rpc1 ''q-5'')) env0 req0 ''c1'' (JDict [(''scale_out'', JDict [(''count'', JInt 2)])]) (0, []) =
      (Inr (JDict [(''action'', JStr ''q-5''), (''location'', JStr ''/actions/q-5'')]),
       (1, [(ClusterScaleOut () ''c1'' (JInt 2),
             Inr (JDict [(''action'', JStr ''q-5'')]))]))"
    by (simp add: ctl_simps rpc1_def)
  note 1 = mutations_return_location [where rpc = "rpc1 ''a-17''" and cluster_id = "''c1''",
      THEN conjunct1, THEN mp, OF c]
  note 2 = mutations_return_location [where rpc = "rpc1 ''b-2''" and cluster_id = "''c1''",
      THEN conjunct2, THEN conjunct1, THEN mp, OF u]
  note 3 = mutations_return_location [where rpc = "rpc1 ''zzz-999''" and cluster_id = "''c1''"
      and body = JNull, THEN conjunct2, THEN conjunct2, THEN conjunct1, THEN mp, OF d]
  note 4 = mutations_return_location [where rpc = "rpc1 ''q-5''" and cluster_id = "''c1''",
      THEN conjunct2, THEN conjunct2, THEN conjunct2, THEN mp, OF a]
  show ?thesis by (intro conjI c u d a 1 2 3 4)
qed

subsection \<open>Validation of a replace-nodes request\<close>

text \<open>
  A \<open>replace_nodes\<close> request whose payload is a dictionary is answered with
  \<open>HTTPBadRequest\<close>, and no RPC call is made, when the \<open>nodes\<close> value is missing or
  is not a dictionary, or when it is a dictionary of hashable values in which two
  different original nodes have the same replacement, or in which an original node id
  is the empty string or a replacement is empty.
\<close>

lemma replace_nodes_rejects_hashable:
  assumes body: "body = JDict [(''replace_nodes'', JDict data)]"
    and bad: "map_of data ''nodes'' = None \<or>
       (\<exists>v. map_of data ''nodes'' = Some v \<and> \<not> is_dict v) \<or>
       (\<exists>m. map_of data ''nodes'' = Some (JDict m) \<and> (\<forall>v \<in> snd ` set m. hashable v) \<and>
          ((\<exists>k1 k2 v. k1 \<noteq> k2 \<and> (k1, v) \<in> set m \<and> (k2, v) \<in> set m) \<or>
           (\<exists>k v. (k, v) \<in> set m \<and> (k = [] \<or> \<not> truthy v))))"
  shows "\<exists>msg. action (traced_rpc rpc) env req cluster_id body (s, []) =
           (Inl (HTTPBadRequest msg), (s, []))"
proof -
  have a: "action (traced_rpc rpc) env req cluster_id body =
           replace_nodes (traced_rpc rpc) env req cluster_id ''replace_nodes'' body"
    unfolding body by (simp add: action_def SUPPORTED_ACTIONS_def)
  from bad have "\<exists>msg. replace_nodes (traced_rpc rpc) env req cluster_id ''replace_nodes''
           (JDict [(''replace_nodes'', JDict data)]) (s, []) = (Inl (HTTPBadRequest msg), (s, []))"
  proof (elim disjE exE conjE)
    assume "map_of data ''nodes'' = None"
    then show ?thesis by (intro replace_nodes_missing) simp
  next
    fix v assume "map_of data ''nodes'' = Some v" "\<not> is_dict v"
    then show ?thesis by (intro replace_nodes_missing) simp
  next
    fix m k1 k2 v
    assume "map_of data ''nodes'' = Some (JDict m)" "\<forall>v \<in> snd ` set m. hashable v"
      "k1 \<noteq> k2" "(k1, v) \<in> set m" "(k2, v) \<in> set m"
    then show ?thesis by (rule replace_nodes_duplicates)
  next
    fix m k v
    assume "map_of data ''nodes'' = Some (JDict m)" "\<forall>v \<in> snd ` set m. hashable v"
      "(k, v) \<in> set m" "k = []"
    then show ?thesis by (intro replace_nodes_empty_id [of data m k v]) simp_all
  next
    fix m k v
    assume "map_of data ''nodes'' = Some (JDict m)" "\<forall>v \<in> snd ` set m. hashable v"
      "(k, v) \<in> set m" "\<not> truthy v"
    then show ?thesis by (intro replace_nodes_empty_id [of data m k v]) simp_all
  qed
  with a body show ?thesis by simp
qed

text \<open>
  C10. Not every malformed \<open>replace_nodes\<close> request is answered with
  \<open>HTTPBadRequest\<close>. \<open>_replace_nodes\<close> builds \<open>set(params.values())\<close> before it looks
  at the values, so a request in which two original nodes have the same replacement
  and a third replacement is a list ends with the \<open>TypeError\<close> of \<open>set\<close>; and it
  calls \<open>body.get(this_action).get('nodes')\<close> without testing the payload, so a
  request whose payload is \<open>null\<close>, where the \<open>nodes\<close> value is missing, ends with
  an \<open>AttributeError\<close>. No RPC call is made in either case.
\<close>

theorem replace_nodes_escapes:
  "action (traced_rpc rpc0) env0 req0 ''c1''
     (JDict [(''replace_nodes'', JDict [(''nodes'',
        JDict [(''node-1'', JStr ''new-1''), (''node-2'', JStr ''new-1''),
               (''node-3'', JList [JStr ''new-3''])])])]) (0, []) =
     (Inl (TypeError ''unhashable type''), (0, [])) \<and>
   action (traced_rpc rpc0) env0 req0 ''c1'' (JDict [(''replace_nodes'', JNull)]) (0, []) =
     (Inl (AttributeError ''get''), (0, []))"
  by (simp add: ctl_simps)

section \<open>Properties of the lock manager\<close>






end
